theory Spec2Isabelle
  imports Main "HOL-Library.Sublist"
begin

section \<open>Talent8 MCP server: data model, retrieval client, response formatter\<close>

text \<open>
  A shallow embedding of \<^verbatim>\<open>src/models.py\<close>, \<^verbatim>\<open>src/config.py\<close>,
  \<^verbatim>\<open>src/bedrock_client.py\<close> and \<^verbatim>\<open>src/server.py\<close>.

  Conventions.
  \<^item> Python \<^verbatim>\<open>str\<close> is \<open>string\<close>, \<^verbatim>\<open>int\<close> is \<open>int\<close>, \<^verbatim>\<open>Optional[T]\<close> is \<open>T option\<close>.
  \<^item> A \<^verbatim>\<open>Dict[str, Any]\<close> whose iteration order is observed (the formatter walks
    \<^verbatim>\<open>metadata.items()\<close>) is an association list in insertion order; the values of
    type \<^verbatim>\<open>Any\<close> are a type parameter \<open>'v\<close>, and Python's builtin \<^verbatim>\<open>str()\<close> on them
    is the parameter \<open>py_str\<close>.
  \<^item> A raised exception is the left summand of a result \<open>exn + 'a\<close>.
  \<^item> Writes to \<^verbatim>\<open>sys.stderr\<close>, the module global \<^verbatim>\<open>_bedrock_client\<close> and the
    \<^verbatim>\<open>lru_cache\<close> of \<^verbatim>\<open>get_settings\<close> are fields of an explicit state.
\<close>

subsection \<open>Exceptions\<close>

text \<open>
  The body of a botocore \<^verbatim>\<open>ClientError\<close>: \<^verbatim>\<open>e.response\<close> is a dict that may hold an
  \<^verbatim>\<open>"Error"\<close> dict, which may hold \<^verbatim>\<open>"Code"\<close> and \<^verbatim>\<open>"Message"\<close>.
\<close>

record error_detail =
  Code :: "string option"
  Message :: "string option"

record error_response =
  Error :: "error_detail option"

text \<open>
  The exception classes that occur; all of them are subclasses of Python's
  \<^verbatim>\<open>Exception\<close>. A pydantic \<^verbatim>\<open>ValidationError\<close> carries the title of the model and one
  (field, error type) pair per failed field. \<^verbatim>\<open>ClientError\<close> carries its response and
  its \<^verbatim>\<open>str(e)\<close>; the others carry their \<^verbatim>\<open>str(e)\<close>.
\<close>

datatype exn =
    BedrockClientError string
  | ValidationError string "(string \<times> string) list"
  | ClientError error_response string
  | BotoCoreError string
  | OtherException string

text \<open>
  \<^verbatim>\<open>str(e)\<close>. The text pydantic renders for a \<^verbatim>\<open>ValidationError\<close> belongs to the
  library, so it is the parameter \<open>str_validation\<close>.
\<close>

fun str_exn :: "(string \<Rightarrow> (string \<times> string) list \<Rightarrow> string) \<Rightarrow> exn \<Rightarrow> string" where
  "str_exn str_validation (BedrockClientError m) = m"
| "str_exn str_validation (ValidationError title errs) = str_validation title errs"
| "str_exn str_validation (ClientError r m) = m"
| "str_exn str_validation (BotoCoreError m) = m"
| "str_exn str_validation (OtherException m) = m"

subsection \<open>Python floats\<close>

text \<open>
  A Python \<^verbatim>\<open>float\<close> is an IEEE 754 binary64 value. \<open>Finite s m e\<close> stands for
  \<open>(-1)\<^sup>s \<sqdot> m \<sqdot> 2\<^sup>e\<close> (for a double: \<open>m < 2\<^sup>5\<^sup>3\<close> and \<open>-1074 \<le> e\<close>), the
  sign bit kept apart so that \<^verbatim>\<open>-0.0\<close> is a value; \<open>Infinity s\<close> is \<^verbatim>\<open>inf\<close> or \<^verbatim>\<open>-inf\<close>.
  NaN is not modelled.
\<close>

datatype pyfloat = Finite bool nat int | Infinity bool

text \<open>
  \<^verbatim>\<open>x >= 0.0\<close> and \<^verbatim>\<open>x <= 1.0\<close>, the constraints of a score. \<^verbatim>\<open>-0.0 >= 0.0\<close> is true.
  A magnitude \<open>m \<sqdot> 2\<^sup>e\<close> with \<open>e < 0\<close> is at most 1 when \<open>m \<le> 2\<^sup>-\<^sup>e\<close>.
\<close>

fun float_ge_zero :: "pyfloat \<Rightarrow> bool" where
  "float_ge_zero (Finite s m e) = (\<not> s \<or> m = 0)"
| "float_ge_zero (Infinity s) = (\<not> s)"

fun float_le_one :: "pyfloat \<Rightarrow> bool" where
  "float_le_one (Finite s m e) =
     (s \<or> (if 0 \<le> e then m * 2 ^ nat e \<le> 1 else m \<le> 2 ^ nat (- e)))"
| "float_le_one (Infinity s) = s"

text \<open>\<^verbatim>\<open>int.bit_length()\<close>.\<close>

fun bit_length :: "nat \<Rightarrow> nat" where
  "bit_length n = (if n = 0 then 0 else bit_length (n div 2) + 1)"

declare bit_length.simps [simp del]

text \<open>\<open>a / 2\<^sup>k\<close> rounded to the nearest integer, ties to the even one.\<close>

definition round_half_even :: "nat \<Rightarrow> nat \<Rightarrow> nat" where
  "round_half_even a k =
     (let q = a div 2 ^ k; r = a mod 2 ^ k
      in if 2 ^ k < 2 * r \<or> (2 * r = 2 ^ k \<and> odd q) then q + 1 else q)"

text \<open>
  \<^verbatim>\<open>x * 100\<close> for a float \<^verbatim>\<open>x\<close>: the exact product \<open>(100 \<sqdot> m) \<sqdot> 2\<^sup>e\<close> is rounded to a
  53-bit significand (round to nearest, ties to even); a result of \<open>2\<^sup>1\<^sup>0\<^sup>2\<^sup>4\<close> or more
  overflows to infinity. The exponent only grows, so nothing underflows.
\<close>

definition float_overflows :: "nat \<Rightarrow> int \<Rightarrow> bool" where
  "float_overflows m e =
     (if 0 \<le> e then 2 ^ 1024 \<le> m * 2 ^ nat e else 2 ^ 1024 * 2 ^ nat (- e) \<le> m)"

fun float_mul_100 :: "pyfloat \<Rightarrow> pyfloat" where
  "float_mul_100 (Finite s m e) =
     (let p = m * 100;
          k = bit_length p - 53;
          m' = round_half_even p k;
          e' = e + int k
      in if float_overflows m' e' then Infinity s else Finite s m' e')"
| "float_mul_100 (Infinity s) = Infinity s"

text \<open>\<^verbatim>\<open>str(n)\<close> for a natural number and for an integer.\<close>

fun str_nat :: "nat \<Rightarrow> string" where
  "str_nat n =
     (if n < 10 then [''0123456789'' ! n]
      else str_nat (n div 10) @ [''0123456789'' ! (n mod 10)])"

declare str_nat.simps [simp del]

definition str_int :: "int \<Rightarrow> string" where
  "str_int i = (if i < 0 then ''-'' @ str_nat (nat (- i)) else str_nat (nat i))"

text \<open>
  \<^verbatim>\<open>f"{x:.1f}"\<close>: the exact value of \<^verbatim>\<open>x\<close> is rounded to one decimal place (to nearest,
  ties to even) and printed in full; the sign bit prints as \<^verbatim>\<open>-\<close> also in front of a
  zero.
\<close>

definition tenths :: "nat \<Rightarrow> int \<Rightarrow> nat" where
  "tenths m e = (if 0 \<le> e then m * 10 * 2 ^ nat e else round_half_even (m * 10) (nat (- e)))"

fun format_1f :: "pyfloat \<Rightarrow> string" where
  "format_1f (Finite s m e) =
     (let n = tenths m e
      in (if s then ''-'' else '''') @ str_nat (n div 10) @ ''.'' @ str_nat (n mod 10))"
| "format_1f (Infinity s) = (if s then ''-inf'' else ''inf'')"

subsection \<open>\<^verbatim>\<open>src/models.py\<close>\<close>

record JobOpeningQuery =
  query_text :: string
  max_results :: int

text \<open>
  \<^verbatim>\<open>JobOpeningQuery(query_text=..., max_results=...)\<close>. \<^verbatim>\<open>query_text\<close> has
  \<^verbatim>\<open>min_length=1\<close>; \<^verbatim>\<open>max_results\<close> has \<^verbatim>\<open>gt=0, le=100\<close> and the default 10 (pydantic
  does not validate a default). pydantic collects the errors of all fields into one
  \<^verbatim>\<open>ValidationError\<close>.
\<close>

definition JobOpeningQuery_errors :: "string \<Rightarrow> int option \<Rightarrow> (string \<times> string) list" where
  "JobOpeningQuery_errors qt mr =
     (if length qt < 1 then [(''query_text'', ''string_too_short'')] else []) @
     (case mr of
        None \<Rightarrow> []
      | Some n \<Rightarrow>
          if 100 < n then [(''max_results'', ''less_than_equal'')]
          else if \<not> 0 < n then [(''max_results'', ''greater_than'')]
          else [])"

definition JobOpeningQuery_init :: "string \<Rightarrow> int option \<Rightarrow> exn + JobOpeningQuery" where
  "JobOpeningQuery_init qt mr =
     (let errs = JobOpeningQuery_errors qt mr
      in if errs = []
         then Inr \<lparr>query_text = qt, max_results = (case mr of None \<Rightarrow> 10 | Some n \<Rightarrow> n)\<rparr>
         else Inl (ValidationError ''JobOpeningQuery'' errs))"

record 'v SourceMetadata =
  type :: string
  s3_location :: "(string \<times> 'v) list option"
  web_location :: "(string \<times> 'v) list option"

record 'v JobOpeningResult =
  content :: string
  score :: "pyfloat option"
  metadata :: "(string \<times> 'v) list"
  source :: "'v SourceMetadata option"

text \<open>
  \<^verbatim>\<open>JobOpeningResult(content=..., score=..., metadata=..., source=...)\<close> on arguments of
  the annotated types: the only constraint is \<^verbatim>\<open>ge=0.0, le=1.0\<close> on a score that is not
  \<^verbatim>\<open>None\<close>.
\<close>

definition score_errors :: "pyfloat option \<Rightarrow> (string \<times> string) list" where
  "score_errors sc =
     (case sc of
        None \<Rightarrow> []
      | Some x \<Rightarrow>
          if \<not> float_le_one x then [(''score'', ''less_than_equal'')]
          else if \<not> float_ge_zero x then [(''score'', ''greater_than_equal'')]
          else [])"

definition JobOpeningResult_init ::
  "string \<Rightarrow> pyfloat option \<Rightarrow> (string \<times> 'v) list \<Rightarrow> 'v SourceMetadata option
   \<Rightarrow> exn + 'v JobOpeningResult" where
  "JobOpeningResult_init c sc md src =
     (if score_errors sc = []
      then Inr \<lparr>content = c, score = sc, metadata = md, source = src\<rparr>
      else Inl (ValidationError ''JobOpeningResult'' (score_errors sc)))"

record 'v JobOpeningsResponse =
  results :: "'v JobOpeningResult list"
  total_results :: int

text \<open>
  The field validator of \<^verbatim>\<open>total_results\<close>. \<open>info_data_results\<close> is
  \<^verbatim>\<open>info.data.get("results")\<close>: the validated \<^verbatim>\<open>results\<close>, or nothing when that field
  failed its own validation.
\<close>

definition validate_total_results :: "int \<Rightarrow> 'v JobOpeningResult list option \<Rightarrow> int" where
  "validate_total_results v info_data_results =
     (case info_data_results of
        Some rs \<Rightarrow> int (length rs)
      | None \<Rightarrow> v)"

text \<open>
  \<^verbatim>\<open>JobOpeningsResponse(results=..., total_results=...)\<close>; \<open>None\<close> is an omitted keyword.
  The fields are validated in the order of their declaration. An omitted \<^verbatim>\<open>results\<close>
  is \<^verbatim>\<open>default_factory()\<close>, the empty list; a list of \<^verbatim>\<open>JobOpeningResult\<close> instances is
  accepted as it is. A supplied \<^verbatim>\<open>total_results\<close> first meets the constraint \<^verbatim>\<open>ge=0\<close> of
  the field and then the validator (a pydantic "after" validator runs on the value the
  field's own validation returned); an omitted one is the default 0, which pydantic
  neither checks nor hands to the validator.
\<close>

definition JobOpeningsResponse_init ::
  "'v JobOpeningResult list option \<Rightarrow> int option \<Rightarrow> exn + 'v JobOpeningsResponse" where
  "JobOpeningsResponse_init results_arg total_arg =
     (let rs = (case results_arg of None \<Rightarrow> [] | Some l \<Rightarrow> l)
      in case total_arg of
           None \<Rightarrow> Inr \<lparr>results = rs, total_results = 0\<rparr>
         | Some v \<Rightarrow>
             if \<not> 0 \<le> v
             then Inl (ValidationError ''JobOpeningsResponse''
                        [(''total_results'', ''greater_than_equal'')])
             else Inr \<lparr>results = rs, total_results = validate_total_results v (Some rs)\<rparr>)"

subsection \<open>\<^verbatim>\<open>src/config.py\<close>\<close>

record Settings =
  aws_region :: string
  bedrock_knowledge_base_id :: string
  aws_access_key_id :: "string option"
  aws_secret_access_key :: "string option"

text \<open>Truth value of an \<^verbatim>\<open>Optional[str]\<close>: \<^verbatim>\<open>None\<close> and \<^verbatim>\<open>""\<close> are false.\<close>

definition truthy_str :: "string option \<Rightarrow> bool" where
  "truthy_str x = (case x of None \<Rightarrow> False | Some s \<Rightarrow> s \<noteq> [])"

definition get_boto3_config :: "Settings \<Rightarrow> (string \<rightharpoonup> string)" where
  "get_boto3_config self =
     (let config = [''region_name'' \<mapsto> aws_region self]
      in if truthy_str (aws_access_key_id self) \<and> truthy_str (aws_secret_access_key self)
         then config(''aws_access_key_id'' \<mapsto> the (aws_access_key_id self),
                     ''aws_secret_access_key'' \<mapsto> the (aws_secret_access_key self))
         else config)"

subsection \<open>\<^verbatim>\<open>src/bedrock_client.py\<close>: the data the service returns\<close>

text \<open>
  The response of the \<^verbatim>\<open>retrieve\<close> call as botocore hands it over: dicts whose keys may
  each be missing, with values of the types of the service's interface. A location dict
  may hold keys the code never reads (\<open>other_keys\<close>); they count for its truth value.
\<close>

record raw_content =
  content_text :: "string option"

record 'v raw_location =
  location_type :: "string option"
  s3Location :: "(string \<times> 'v) list option"
  webLocation :: "(string \<times> 'v) list option"
  other_keys :: "string list"

record 'v raw_result =
  raw_content :: "raw_content option"
  raw_score :: "pyfloat option"
  raw_metadata :: "(string \<times> 'v) list option"
  raw_location :: "'v raw_location option"

record 'v retrieve_response =
  retrievalResults :: "'v raw_result list option"

text \<open>
  The handle \<^verbatim>\<open>boto3.client("bedrock-agent-runtime", ...)\<close> returns, as the behaviour of
  its \<^verbatim>\<open>retrieve\<close> method on \<^verbatim>\<open>knowledgeBaseId\<close>, the query text and
  \<^verbatim>\<open>numberOfResults\<close>.
\<close>

type_synonym 'v boto_client = "string \<Rightarrow> string \<Rightarrow> int \<Rightarrow> exn + 'v retrieve_response"

record 'v BedrockClient =
  settings :: Settings
  knowledge_base_id :: string
  client :: "'v boto_client"

subsection \<open>The world outside and the state of the process\<close>

text \<open>
  What the code calls and does not define: \<^verbatim>\<open>Settings()\<close> reading the process
  environment, \<^verbatim>\<open>boto3.client\<close>, \<^verbatim>\<open>str()\<close> on a value of type \<^verbatim>\<open>Any\<close>, and the text
  of a pydantic \<^verbatim>\<open>ValidationError\<close>.
\<close>

record 'v env =
  load_settings :: "exn + Settings"
  boto3_client :: "(string \<rightharpoonup> string) \<Rightarrow> exn + 'v boto_client"
  py_str :: "'v \<Rightarrow> string"
  str_validation :: "string \<Rightarrow> (string \<times> string) list \<Rightarrow> string"

text \<open>
  \<open>settings_cache\<close> is the \<^verbatim>\<open>lru_cache\<close> of \<^verbatim>\<open>get_settings\<close>, \<open>bedrock_client\<close> the global
  \<^verbatim>\<open>_bedrock_client\<close>, \<open>stderr\<close> the lines printed to \<^verbatim>\<open>sys.stderr\<close>.
  \<open>retrieve_calls\<close> records the arguments of every \<^verbatim>\<open>retrieve\<close> call made on the handle,
  as a test spy does.
\<close>

record 'v state =
  settings_cache :: "Settings option"
  bedrock_client :: "'v BedrockClient option"
  stderr :: "string list"
  retrieve_calls :: "(string \<times> string \<times> int) list"

definition get_settings :: "'v env \<Rightarrow> 'v state \<Rightarrow> (exn + Settings) \<times> 'v state" where
  "get_settings env st =
     (case settings_cache st of
        Some s \<Rightarrow> (Inr s, st)
      | None \<Rightarrow>
          (case load_settings env of
             Inl e \<Rightarrow> (Inl e, st)
           | Inr s \<Rightarrow> (Inr s, st\<lparr>settings_cache := Some s\<rparr>)))"

subsection \<open>\<^verbatim>\<open>src/bedrock_client.py\<close>: \<^verbatim>\<open>BedrockClient\<close>\<close>

definition BedrockClient_log :: "string \<Rightarrow> string \<Rightarrow> 'v state \<Rightarrow> 'v state" where
  "BedrockClient_log message level st =
     st\<lparr>stderr := stderr st @ [''[BedrockClient] ['' @ level @ ''] '' @ message]\<rparr>"

text \<open>
  \<^verbatim>\<open>BedrockClient.__init__\<close>. \<^verbatim>\<open>get_settings()\<close> is called outside the \<^verbatim>\<open>try\<close>, so its
  exception leaves as it is; an exception of \<^verbatim>\<open>boto3.client\<close> becomes a
  \<^verbatim>\<open>BedrockClientError\<close>.
\<close>

definition BedrockClient_init :: "'v env \<Rightarrow> 'v state \<Rightarrow> (exn + 'v BedrockClient) \<times> 'v state" where
  "BedrockClient_init env st =
     (case get_settings env st of
        (Inl e, st1) \<Rightarrow> (Inl e, st1)
      | (Inr s, st1) \<Rightarrow>
          (case boto3_client env (get_boto3_config s) of
             Inr handle \<Rightarrow>
               (Inr \<lparr>settings = s, knowledge_base_id = bedrock_knowledge_base_id s,
                     client = handle\<rparr>,
                BedrockClient_log
                  (''Initialized Bedrock client for KB: '' @ bedrock_knowledge_base_id s)
                  ''INFO'' st1)
           | Inl e \<Rightarrow>
               (Inl (BedrockClientError
                      (''Failed to initialize Bedrock client: '' @ str_exn (str_validation env) e)),
                BedrockClient_log
                  (''Failed to initialize Bedrock client: '' @ str_exn (str_validation env) e)
                  ''ERROR'' st1)))"

text \<open>Truth value of a location dict: true unless it is empty.\<close>

definition truthy_location :: "'v raw_location \<Rightarrow> bool" where
  "truthy_location l =
     (location_type l \<noteq> None \<or> s3Location l \<noteq> None \<or> webLocation l \<noteq> None \<or> other_keys l \<noteq> [])"

definition parse_source_metadata :: "'v raw_location \<Rightarrow> 'v SourceMetadata" where
  "parse_source_metadata location_data =
     \<lparr>type = (case location_type location_data of None \<Rightarrow> ''UNKNOWN'' | Some t \<Rightarrow> t),
      s3_location = s3Location location_data,
      web_location = webLocation location_data\<rparr>"

definition parse_retrieve_result :: "'v raw_result \<Rightarrow> exn + 'v JobOpeningResult" where
  "parse_retrieve_result result_data =
     (let content_data =
            (case raw_content result_data of None \<Rightarrow> \<lparr>content_text = None\<rparr> | Some c \<Rightarrow> c);
          text_value = (case content_text content_data of None \<Rightarrow> '''' | Some t \<Rightarrow> t);
          score_value = raw_score result_data;
          metadata_value = (case raw_metadata result_data of None \<Rightarrow> [] | Some m \<Rightarrow> m);
          source_value =
            (case raw_location result_data of
               None \<Rightarrow> None
             | Some location_data \<Rightarrow>
                 if truthy_location location_data
                 then Some (parse_source_metadata location_data)
                 else None)
      in JobOpeningResult_init text_value score_value metadata_value source_value)"

text \<open>
  The list comprehension \<^verbatim>\<open>[self._parse_retrieve_result(result) for result in ...]\<close>:
  the first exception ends it.
\<close>

fun parse_all :: "'v raw_result list \<Rightarrow> exn + 'v JobOpeningResult list" where
  "parse_all [] = Inr []"
| "parse_all (result # rest) =
     (case parse_retrieve_result result of
        Inl e \<Rightarrow> Inl e
      | Inr r \<Rightarrow> (case parse_all rest of Inl e \<Rightarrow> Inl e | Inr rs \<Rightarrow> Inr (r # rs)))"

text \<open>The body of the \<^verbatim>\<open>try\<close> in \<^verbatim>\<open>retrieve_job_openings\<close>.\<close>

definition retrieve_try ::
  "'v BedrockClient \<Rightarrow> 'v state \<Rightarrow> string \<Rightarrow> int \<Rightarrow> (exn + 'v JobOpeningsResponse) \<times> 'v state" where
  "retrieve_try self st qt mr =
     (let st1 = BedrockClient_log
                  (''Retrieving job openings for query: '' @ [CHR 0x27] @ qt @ [CHR 0x27])
                  ''INFO'' st;
          st2 = st1\<lparr>retrieve_calls := retrieve_calls st1 @ [(knowledge_base_id self, qt, mr)]\<rparr>
      in case client self (knowledge_base_id self) qt mr of
           Inl e \<Rightarrow> (Inl e, st2)
         | Inr response \<Rightarrow>
             (let retrieval_results =
                    (case retrievalResults response of None \<Rightarrow> [] | Some l \<Rightarrow> l);
                  st3 = BedrockClient_log
                          (''Retrieved '' @ str_nat (length retrieval_results) @ '' results'')
                          ''INFO'' st2
              in case parse_all retrieval_results of
                   Inl e \<Rightarrow> (Inl e, st3)
                 | Inr job_results \<Rightarrow>
                     (JobOpeningsResponse_init (Some job_results)
                        (Some (int (length job_results))), st3)))"

text \<open>The three \<^verbatim>\<open>except\<close> clauses of \<^verbatim>\<open>retrieve_job_openings\<close>, in their order.\<close>

definition retrieve_except :: "'v env \<Rightarrow> exn \<Rightarrow> 'v state \<Rightarrow> exn \<times> 'v state" where
  "retrieve_except env e st =
     (case e of
        ClientError response m \<Rightarrow>
          (let detail =
                 (case Error response of None \<Rightarrow> \<lparr>Code = None, Message = None\<rparr> | Some d \<Rightarrow> d);
               error_code = (case Code detail of None \<Rightarrow> ''Unknown'' | Some c \<Rightarrow> c);
               error_message = (case Message detail of None \<Rightarrow> m | Some t \<Rightarrow> t)
           in (BedrockClientError
                 (''AWS error during retrieval: '' @ error_code @ '' - '' @ error_message),
               BedrockClient_log
                 (''AWS ClientError during retrieval: '' @ error_code @ '' - '' @ error_message)
                 ''ERROR'' st))
      | BotoCoreError m \<Rightarrow>
          (BedrockClientError (''Failed to retrieve job openings: '' @ m),
           BedrockClient_log (''BotoCoreError during retrieval: '' @ m) ''ERROR'' st)
      | _ \<Rightarrow>
          (BedrockClientError
             (''Unexpected error during retrieval: '' @ str_exn (str_validation env) e),
           BedrockClient_log
             (''Unexpected error during retrieval: '' @ str_exn (str_validation env) e)
             ''ERROR'' st))"

definition retrieve_job_openings ::
  "'v env \<Rightarrow> 'v BedrockClient \<Rightarrow> 'v state \<Rightarrow> string \<Rightarrow> int
   \<Rightarrow> (exn + 'v JobOpeningsResponse) \<times> 'v state" where
  "retrieve_job_openings env self st qt mr =
     (case retrieve_try self st qt mr of
        (Inr response, st1) \<Rightarrow> (Inr response, st1)
      | (Inl e, st1) \<Rightarrow> (case retrieve_except env e st1 of (e', st2) \<Rightarrow> (Inl e', st2)))"

subsection \<open>\<^verbatim>\<open>src/server.py\<close>\<close>

definition server_log :: "string \<Rightarrow> string \<Rightarrow> 'v state \<Rightarrow> 'v state" where
  "server_log message level st =
     st\<lparr>stderr := stderr st @ [''[MCP Server] ['' @ level @ ''] '' @ message]\<rparr>"

definition get_bedrock_client :: "'v env \<Rightarrow> 'v state \<Rightarrow> (exn + 'v BedrockClient) \<times> 'v state" where
  "get_bedrock_client env st =
     (case bedrock_client st of
        Some c \<Rightarrow> (Inr c, st)
      | None \<Rightarrow>
          (case BedrockClient_init env st of
             (Inl e, st1) \<Rightarrow> (Inl e, st1)
           | (Inr c, st1) \<Rightarrow> (Inr c, st1\<lparr>bedrock_client := Some c\<rparr>)))"

text \<open>\<^verbatim>\<open>"\n".join(lines)\<close>.\<close>

fun str_join :: "string \<Rightarrow> string list \<Rightarrow> string" where
  "str_join sep [] = []"
| "str_join sep [x] = x"
| "str_join sep (x # y # ys) = x @ sep @ str_join sep (y # ys)"

text \<open>Truth value of an \<^verbatim>\<open>Optional[Dict]\<close>, and \<^verbatim>\<open>f"{d.get(key, default)}"\<close>.\<close>

definition truthy_dict :: "(string \<times> 'v) list option \<Rightarrow> bool" where
  "truthy_dict d = (case d of None \<Rightarrow> False | Some kvs \<Rightarrow> kvs \<noteq> [])"

definition get_str :: "('v \<Rightarrow> string) \<Rightarrow> (string \<times> 'v) list \<Rightarrow> string \<Rightarrow> string \<Rightarrow> string" where
  "get_str to_str d key dflt =
     (case map_of d key of None \<Rightarrow> dflt | Some v \<Rightarrow> to_str v)"

text \<open>The lines one pass of the loop appends for \<^verbatim>\<open>result\<close> at index \<^verbatim>\<open>idx\<close>.\<close>

definition score_lines :: "pyfloat option \<Rightarrow> string list" where
  "score_lines sc =
     (case sc of
        None \<Rightarrow> []
      | Some x \<Rightarrow> [''Relevance Score: '' @ format_1f (float_mul_100 x) @ ''%''])"

definition metadata_lines :: "('v \<Rightarrow> string) \<Rightarrow> (string \<times> 'v) list \<Rightarrow> string list" where
  "metadata_lines to_str md =
     (if md \<noteq> []
      then ''\<newline>Metadata:'' # map (\<lambda>(key, value). ''  - '' @ key @ '': '' @ to_str value) md
      else [])"

definition source_lines :: "('v \<Rightarrow> string) \<Rightarrow> 'v SourceMetadata option \<Rightarrow> string list" where
  "source_lines to_str src =
     (case src of
        None \<Rightarrow> []
      | Some s \<Rightarrow>
          (''\<newline>Source Type: '' @ type s) #
          (if truthy_dict (s3_location s)
           then [''Location: '' @ get_str to_str (the (s3_location s)) ''uri'' ''N/A'']
           else if truthy_dict (web_location s)
           then [''URL: '' @ get_str to_str (the (web_location s)) ''url'' ''N/A'']
           else []))"

definition result_lines :: "('v \<Rightarrow> string) \<Rightarrow> nat \<Rightarrow> 'v JobOpeningResult \<Rightarrow> string list" where
  "result_lines to_str idx result =
     [''\<newline>--- Job Opening #'' @ str_nat idx @ '' ---''] @
     score_lines (score result) @
     [''\<newline>'' @ content result] @
     metadata_lines to_str (metadata result) @
     source_lines to_str (source result) @
     ['''']"

definition format_job_openings_response :: "('v \<Rightarrow> string) \<Rightarrow> 'v JobOpeningsResponse \<Rightarrow> string" where
  "format_job_openings_response to_str response =
     (if total_results response = 0
      then ''No job openings found matching your query.''
      else str_join ''\<newline>''
             ((''Found '' @ str_int (total_results response) @ '' job opening(s):\<newline>'') #
              concat (map (\<lambda>(idx, result). result_lines to_str idx result)
                        (enumerate 1 (results response)))))"

text \<open>The body of the \<^verbatim>\<open>try\<close> in \<^verbatim>\<open>get_job_openings\<close>.\<close>

definition get_job_openings_try ::
  "'v env \<Rightarrow> 'v state \<Rightarrow> string \<Rightarrow> int \<Rightarrow> (exn + string) \<times> 'v state" where
  "get_job_openings_try env st qt mr =
     (case JobOpeningQuery_init qt (Some mr) of
        Inl e \<Rightarrow> (Inl e, st)
      | Inr query \<Rightarrow>
          (let st1 = server_log
                       (''Processing query: '' @ [CHR 0x27] @ query_text query @ [CHR 0x27] @
                        '' (max_results='' @ str_int (max_results query) @ '')'')
                       ''INFO'' st
           in case get_bedrock_client env st1 of
                (Inl e, st2) \<Rightarrow> (Inl e, st2)
              | (Inr c, st2) \<Rightarrow>
                  (case retrieve_job_openings env c st2 (query_text query) (max_results query) of
                     (Inl e, st3) \<Rightarrow> (Inl e, st3)
                   | (Inr response, st3) \<Rightarrow>
                       (Inr (format_job_openings_response (py_str env) response), st3))))"

text \<open>
  \<^verbatim>\<open>get_job_openings\<close>: the \<^verbatim>\<open>try\<close> with its two \<^verbatim>\<open>except\<close> clauses, first
  \<^verbatim>\<open>BedrockClientError\<close>, then \<^verbatim>\<open>Exception\<close>.
\<close>

definition get_job_openings ::
  "'v env \<Rightarrow> 'v state \<Rightarrow> string \<Rightarrow> int \<Rightarrow> (exn + string) \<times> 'v state" where
  "get_job_openings env st qt mr =
     (case get_job_openings_try env st qt mr of
        (Inr s, st1) \<Rightarrow> (Inr s, st1)
      | (Inl e, st1) \<Rightarrow>
          (case e of
             BedrockClientError m \<Rightarrow>
               (Inr ''Failed to retrieve job openings. Please try again later.'',
                server_log (''Error retrieving job openings: '' @ m) ''ERROR'' st1)
           | _ \<Rightarrow>
               (Inr ''An unexpected error occurred. Please try again later.'',
                server_log (''Unexpected error: '' @ str_exn (str_validation env) e)
                  ''ERROR'' st1)))"

subsection \<open>The text of a score, in the words of the specification\<close>

text \<open>
  "The relevance score as a percentage with one decimal place (score \<open>\<times>\<close> 100, formatted to
  one decimal)". The definitions of this subsection say what that text is without
  computing it; they are compared with the code's \<^verbatim>\<open>f"{score * 100:.1f}"\<close> below.

  \<open>spec_nearest n a k\<close>: \<open>n\<close> is \<open>a / 2\<^sup>k\<close> rounded to the nearest integer, a tie going to
  the even one.
\<close>

definition spec_nearest :: "nat \<Rightarrow> nat \<Rightarrow> nat \<Rightarrow> bool" where
  "spec_nearest n a k \<longleftrightarrow>
     \<bar>2 * (int n * 2 ^ k - int a)\<bar> \<le> 2 ^ k \<and>
     (\<bar>2 * (int n * 2 ^ k - int a)\<bar> = 2 ^ k \<longrightarrow> even n)"

text \<open>
  \<open>spec_product_100 m e m' e'\<close>: \<open>m' \<sqdot> 2\<^sup>e\<^sup>'\<close> is the product \<open>100 \<sqdot> m \<sqdot> 2\<^sup>e\<close> rounded to 53
  significant bits: the exact significand \<open>100 \<sqdot> m\<close> is kept when it fits in 53 bits, and
  else loses the \<open>k\<close> low bits that exceed them.
\<close>

definition spec_product_100 :: "nat \<Rightarrow> int \<Rightarrow> nat \<Rightarrow> int \<Rightarrow> bool" where
  "spec_product_100 m e m' e' \<longleftrightarrow>
     (\<exists>k. e' = e + int k \<and> 100 * m < 2 ^ (53 + k) \<and> (k = 0 \<or> 2 ^ (52 + k) \<le> 100 * m) \<and>
          spec_nearest m' (100 * m) k)"

text \<open>\<open>spec_tenths m e n\<close>: \<open>n\<close> is \<open>10 \<sqdot> m \<sqdot> 2\<^sup>e\<close> rounded to an integer, the number of tenths.\<close>

definition spec_tenths :: "nat \<Rightarrow> int \<Rightarrow> nat \<Rightarrow> bool" where
  "spec_tenths m e n \<longleftrightarrow>
     (if 0 \<le> e then n = 10 * m * 2 ^ nat e else spec_nearest n (10 * m) (nat (- e)))"

text \<open>
  The number a string of decimal digits denotes, and \<open>spec_numeral n t\<close>: \<open>t\<close> is the
  decimal numeral of \<open>n\<close>, digits only and no leading zero.
\<close>

definition digit_value :: "char \<Rightarrow> nat" where
  "digit_value c = of_char c - 48"

definition decimal_value :: "string \<Rightarrow> nat" where
  "decimal_value t = foldl (\<lambda>a c. 10 * a + digit_value c) 0 t"

definition spec_numeral :: "nat \<Rightarrow> string \<Rightarrow> bool" where
  "spec_numeral n t \<longleftrightarrow>
     t \<noteq> [] \<and> set t \<subseteq> set ''0123456789'' \<and> (1 < length t \<longrightarrow> hd t \<noteq> CHR ''0'') \<and>
     decimal_value t = n"

text \<open>
  \<open>spec_one_decimal s n t\<close>: \<open>t\<close> writes \<open>n\<close> tenths with one decimal place, after the sign.
\<close>

definition spec_one_decimal :: "bool \<Rightarrow> nat \<Rightarrow> string \<Rightarrow> bool" where
  "spec_one_decimal s n t \<longleftrightarrow>
     (\<exists>ip d. spec_numeral (n div 10) ip \<and> spec_numeral (n mod 10) [d] \<and>
             t = (if s then ''-'' else '''') @ ip @ ''.'' @ [d])"

text \<open>
  \<open>spec_percent_text x t\<close>: \<open>t\<close> is the score \<open>x\<close> times 100, as a float, written with one
  decimal place.
\<close>

definition spec_percent_text :: "pyfloat \<Rightarrow> string \<Rightarrow> bool" where
  "spec_percent_text x t \<longleftrightarrow>
     (case x of
        Infinity s \<Rightarrow> t = (if s then ''-inf'' else ''inf'')
      | Finite s m e \<Rightarrow>
          (\<exists>m' e'. spec_product_100 m e m' e' \<and>
             (if float_overflows m' e'
              then t = (if s then ''-inf'' else ''inf'')
              else (\<exists>n. spec_tenths m' e' n \<and> spec_one_decimal s n t))))"

subsection \<open>Concrete inputs\<close>

text \<open>
  The settings of the test suite, a handle whose search finds nothing, and a process
  that has not built its client yet. \<^verbatim>\<open>Any\<close> is \<open>string\<close> here and \<^verbatim>\<open>str()\<close> the identity.
\<close>

definition settings0 :: Settings where
  "settings0 =
     \<lparr>aws_region = ''us-east-1'', bedrock_knowledge_base_id = ''test-kb-id-12345'',
      aws_access_key_id = Some ''test-access-key'',
      aws_secret_access_key = Some ''test-secret-key''\<rparr>"

definition handle_empty :: "string boto_client" where
  "handle_empty kb qt mr = Inr \<lparr>retrievalResults = Some []\<rparr>"

definition env0 :: "string env" where
  "env0 =
     \<lparr>load_settings = Inr settings0, boto3_client = (\<lambda>config. Inr handle_empty),
      py_str = (\<lambda>v. v), str_validation = (\<lambda>title errs. title)\<rparr>"

definition st0 :: "string state" where
  "st0 = \<lparr>settings_cache = None, bedrock_client = None, stderr = [], retrieve_calls = []\<rparr>"

text \<open>The floats 0.95, 0.87 and 1.5.\<close>

definition float_0_95 :: pyfloat where
  "float_0_95 = Finite False 8556839292003942 (- 53)"

definition float_0_87 :: pyfloat where
  "float_0_87 = Finite False 7836263351624663 (- 53)"

definition float_1_5 :: pyfloat where
  "float_1_5 = Finite False 3 (- 1)"

definition result1 :: "string JobOpeningResult" where
  "result1 = \<lparr>content = ''Job 1'', score = None, metadata = [], source = None\<rparr>"

text \<open>
  The two entries of the test suite's sample response, an entry with no key at all, and
  an entry whose score is 1.5.
\<close>

definition raw_se :: "string raw_result" where
  "raw_se =
     \<lparr>raw_content = Some \<lparr>content_text = Some ''Software Engineer - Remote position''\<rparr>,
      raw_score = Some float_0_95,
      raw_metadata = Some [(''job_id'', ''12345''), (''department'', ''Engineering'')],
      raw_location =
        Some \<lparr>location_type = Some ''S3'', s3Location = Some [(''uri'', ''s3://jobs/se.pdf'')],
              webLocation = None, other_keys = []\<rparr>\<rparr>"

definition raw_ds :: "string raw_result" where
  "raw_ds =
     \<lparr>raw_content = Some \<lparr>content_text = Some ''Senior Data Scientist position''\<rparr>,
      raw_score = Some float_0_87,
      raw_metadata = Some [(''job_id'', ''67890''), (''department'', ''Data'')],
      raw_location =
        Some \<lparr>location_type = Some ''S3'', s3Location = Some [(''uri'', ''s3://jobs/ds.pdf'')],
              webLocation = None, other_keys = []\<rparr>\<rparr>"

definition raw_missing :: "string raw_result" where
  "raw_missing =
     \<lparr>raw_content = None, raw_score = None, raw_metadata = None, raw_location = None\<rparr>"

definition raw_bad_score :: "string raw_result" where
  "raw_bad_score =
     \<lparr>raw_content = Some \<lparr>content_text = Some ''Staff Engineer''\<rparr>,
      raw_score = Some float_1_5, raw_metadata = None, raw_location = None\<rparr>"

text \<open>Handles that answer with these entries, and handles whose call fails.\<close>

definition handle_sample :: "string boto_client" where
  "handle_sample kb qt mr = Inr \<lparr>retrievalResults = Some [raw_se, raw_missing, raw_ds]\<rparr>"

definition handle_bad_score :: "string boto_client" where
  "handle_bad_score kb qt mr = Inr \<lparr>retrievalResults = Some [raw_se, raw_bad_score]\<rparr>"

definition handle_client_error :: "string boto_client" where
  "handle_client_error kb qt mr =
     Inl (ClientError
            \<lparr>Error = Some \<lparr>Code = Some ''ValidationException'', Message = Some ''Invalid KB ID''\<rparr>\<rparr>
            ''An error occurred (ValidationException) when calling the retrieve operation'')"

definition handle_botocore_error :: "string boto_client" where
  "handle_botocore_error kb qt mr = Inl (BotoCoreError ''An unspecified error occurred'')"

definition handle_other_error :: "string boto_client" where
  "handle_other_error kb qt mr = Inl (OtherException ''connection reset'')"

definition client_of :: "string boto_client \<Rightarrow> string BedrockClient" where
  "client_of handle =
     \<lparr>settings = settings0, knowledge_base_id = ''test-kb-id-12345'', client = handle\<rparr>"

definition env_of :: "string boto_client \<Rightarrow> string env" where
  "env_of handle = env0\<lparr>boto3_client := (\<lambda>config. Inr handle)\<rparr>"

definition env_no_settings :: "string env" where
  "env_no_settings =
     env0\<lparr>load_settings := Inl (ValidationError ''Settings'' [(''aws_region'', ''missing'')])\<rparr>"

text \<open>The sample response of the server's tests.\<close>

definition result_se :: "string JobOpeningResult" where
  "result_se =
     \<lparr>content = ''Software Engineer - Remote position'', score = Some float_0_95,
      metadata = [(''job_id'', ''12345'')], source = None\<rparr>"

definition result_ds :: "string JobOpeningResult" where
  "result_ds =
     \<lparr>content = ''Senior Data Scientist role'', score = Some float_0_87,
      metadata = [(''job_id'', ''67890'')], source = None\<rparr>"

definition response_sample :: "string JobOpeningsResponse" where
  "response_sample = \<lparr>results = [result_se, result_ds], total_results = 2\<rparr>"

section \<open>Properties\<close>

subsection \<open>Query validation at the tool entry point\<close>

lemma query_invalid:
  "qt = [] \<or> mr < 1 \<or> 100 < mr \<Longrightarrow>
   JobOpeningQuery_init qt (Some mr) =
     Inl (ValidationError ''JobOpeningQuery'' (JobOpeningQuery_errors qt (Some mr)))"
  by (auto simp: JobOpeningQuery_init_def JobOpeningQuery_errors_def Let_def)

lemma try_invalid:
  "JobOpeningQuery_init qt (Some mr) = Inl e \<Longrightarrow>
   get_job_openings_try env st qt mr = (Inl e, st)"
  by (simp add: get_job_openings_try_def)

text \<open>
  C2. When \<^verbatim>\<open>query_text\<close> is empty or \<^verbatim>\<open>max_results\<close> lies outside 1..100, building the
  \<^verbatim>\<open>JobOpeningQuery\<close> raises a \<^verbatim>\<open>ValidationError\<close>; the \<^verbatim>\<open>try\<close> body of
  \<^verbatim>\<open>get_job_openings\<close> ends there with the state untouched, so that after the call no
  \<^verbatim>\<open>retrieve\<close> request has been recorded and no client has been built.
\<close>

theorem invalid_query_never_searches:
  assumes "qt = [] \<or> mr < 1 \<or> 100 < mr"
  shows "(\<exists>errs. JobOpeningQuery_init qt (Some mr) =
                    Inl (ValidationError ''JobOpeningQuery'' errs)
                \<and> get_job_openings_try env st qt mr =
                    (Inl (ValidationError ''JobOpeningQuery'' errs), st))
         \<and> retrieve_calls (snd (get_job_openings env st qt mr)) = retrieve_calls st
         \<and> bedrock_client (snd (get_job_openings env st qt mr)) = bedrock_client st"
proof -
  let ?e = "ValidationError ''JobOpeningQuery'' (JobOpeningQuery_errors qt (Some mr))"
  have q: "JobOpeningQuery_init qt (Some mr) = Inl ?e"
    using assms by (rule query_invalid)
  then have t: "get_job_openings_try env st qt mr = (Inl ?e, st)"
    by (rule try_invalid)
  show ?thesis
    using q t by (simp add: get_job_openings_def server_log_def)
qed

theorem invalid_query_never_searches_witness:
  "JobOpeningQuery_init '''' (Some 10) =
     Inl (ValidationError ''JobOpeningQuery'' [(''query_text'', ''string_too_short'')])
   \<and> JobOpeningQuery_init ''engineer'' (Some 0) =
     Inl (ValidationError ''JobOpeningQuery'' [(''max_results'', ''greater_than'')])
   \<and> JobOpeningQuery_init ''engineer'' (Some 101) =
     Inl (ValidationError ''JobOpeningQuery'' [(''max_results'', ''less_than_equal'')])
   \<and> retrieve_calls (snd (get_job_openings env0 st0 '''' 10)) = []
   \<and> retrieve_calls (snd (get_job_openings env0 st0 ''engineer'' 0)) = []
   \<and> retrieve_calls (snd (get_job_openings env0 st0 ''engineer'' 101)) = []
   \<and> retrieve_calls (snd (get_job_openings env0 st0 ''engineer'' 100)) =
       [(''test-kb-id-12345'', ''engineer'', 100)]"
  using invalid_query_never_searches [of "''''" 10 env0 st0]
    invalid_query_never_searches [of "''engineer''" 0 env0 st0]
    invalid_query_never_searches [of "''engineer''" 101 env0 st0]
  apply (simp add: JobOpeningQuery_init_def JobOpeningQuery_errors_def st0_def)
  apply (simp add: get_job_openings_def get_job_openings_try_def JobOpeningQuery_init_def
      JobOpeningQuery_errors_def get_bedrock_client_def BedrockClient_init_def
      get_settings_def env0_def settings0_def retrieve_job_openings_def retrieve_try_def
      handle_empty_def BedrockClient_log_def server_log_def JobOpeningsResponse_init_def
      validate_total_results_def Let_def)
  done

subsection \<open>The derived count of a response\<close>

text \<open>
  C1, as the claim states it, fails: a negative \<^verbatim>\<open>total_results\<close> is not corrected to the
  true count. The constraint \<^verbatim>\<open>ge=0\<close> of the field rejects it before the validator runs,
  and no object is built.
\<close>

theorem total_results_negative_rejected:
  "JobOpeningsResponse_init (Some [result1]) (Some (- 1)) =
     Inl (ValidationError ''JobOpeningsResponse'' [(''total_results'', ''greater_than_equal'')])"
  by (simp add: JobOpeningsResponse_init_def)

text \<open>
  C1, amended. Whenever \<^verbatim>\<open>total_results\<close> is supplied and is not negative, the object is
  built, its \<^verbatim>\<open>results\<close> are the supplied list (the empty list when \<^verbatim>\<open>results\<close> is
  omitted), and its \<^verbatim>\<open>total_results\<close> is the length of that list, whatever was supplied.
  A negative supplied value raises a \<^verbatim>\<open>ValidationError\<close>.
\<close>

theorem total_results_corrected:
  "(0 \<le> v \<longrightarrow>
      (\<exists>r. JobOpeningsResponse_init results_arg (Some v) = Inr r
           \<and> results r = (case results_arg of None \<Rightarrow> [] | Some l \<Rightarrow> l)
           \<and> total_results r = int (length (results r))))
   \<and> (v < 0 \<longrightarrow>
      JobOpeningsResponse_init results_arg (Some v) =
        Inl (ValidationError ''JobOpeningsResponse''
              [(''total_results'', ''greater_than_equal'')]))"
  by (simp add: JobOpeningsResponse_init_def validate_total_results_def Let_def)

theorem total_results_corrected_witness:
  "JobOpeningsResponse_init (Some [result1]) (Some 5) =
     Inr \<lparr>results = [result1], total_results = 1\<rparr>
   \<and> JobOpeningsResponse_init (None :: string JobOpeningResult list option) (Some 5) =
     Inr \<lparr>results = [], total_results = 0\<rparr>
   \<and> isl (JobOpeningsResponse_init (Some [result1]) (Some (- 3)))"
  using total_results_corrected [of 5 "Some [result1]"]
    total_results_corrected [of 5 "None :: string JobOpeningResult list option"]
    total_results_corrected [of "- 3" "Some [result1]"]
  by auto

text \<open>
  When \<^verbatim>\<open>total_results\<close> is omitted, pydantic takes the default 0 as it is and the
  validator does not run: the count of a non-empty list is then 0.
\<close>

lemma total_results_omitted:
  "JobOpeningsResponse_init (Some [result1]) None =
     Inr \<lparr>results = [result1], total_results = 0\<rparr>"
  by (simp add: JobOpeningsResponse_init_def)

subsection \<open>The formatter on an empty response\<close>

text \<open>
  C6. A response whose \<^verbatim>\<open>total_results\<close> is 0 is formatted as exactly the sentence
  "No job openings found matching your query.", whatever its other fields hold.
\<close>

theorem zero_results_sentinel:
  "total_results response = 0 \<Longrightarrow>
   format_job_openings_response to_str response =
     ''No job openings found matching your query.''"
  by (simp add: format_job_openings_response_def)

theorem zero_results_sentinel_witness:
  "total_results \<lparr>results = ([] :: string JobOpeningResult list), total_results = 0\<rparr> = 0
   \<and> format_job_openings_response (\<lambda>v. v)
        \<lparr>results = ([] :: string JobOpeningResult list), total_results = 0\<rparr> =
      ''No job openings found matching your query.''"
  using zero_results_sentinel
    [of "\<lparr>results = ([] :: string JobOpeningResult list), total_results = 0\<rparr>" "\<lambda>v. v"]
  by simp

subsection \<open>A validation error at the tool boundary\<close>

text \<open>
  C8, as the claim states it, fails: the \<^verbatim>\<open>ValidationError\<close> of an empty query does not
  leave \<^verbatim>\<open>get_job_openings\<close>. The clause \<^verbatim>\<open>except Exception\<close> catches it and the call
  returns a string.
\<close>

theorem validation_error_not_propagated:
  "fst (get_job_openings env0 st0 '''' 10) =
     Inr ''An unexpected error occurred. Please try again later.''"
  by (simp add: get_job_openings_def get_job_openings_try_def JobOpeningQuery_init_def
      JobOpeningQuery_errors_def)

text \<open>
  C8, amended. A \<^verbatim>\<open>ValidationError\<close> raised anywhere in the \<^verbatim>\<open>try\<close> body of
  \<^verbatim>\<open>get_job_openings\<close> is not handled by the clause for \<^verbatim>\<open>BedrockClientError\<close> (the result
  is not the "Failed to retrieve" message); the clause for \<^verbatim>\<open>Exception\<close> turns it into the
  string "An unexpected error occurred. Please try again later.".
\<close>

theorem validation_error_generic_message:
  "fst (get_job_openings_try env st qt mr) = Inl (ValidationError title errs) \<Longrightarrow>
   fst (get_job_openings env st qt mr) =
     Inr ''An unexpected error occurred. Please try again later.''
   \<and> fst (get_job_openings env st qt mr) \<noteq>
     Inr ''Failed to retrieve job openings. Please try again later.''"
  by (auto simp: get_job_openings_def split: prod.splits sum.splits exn.splits)

theorem validation_error_generic_message_witness:
  "fst (get_job_openings_try env0 st0 ''engineer'' 0) =
     Inl (ValidationError ''JobOpeningQuery'' [(''max_results'', ''greater_than'')])
   \<and> fst (get_job_openings env0 st0 ''engineer'' 0) =
     Inr ''An unexpected error occurred. Please try again later.''"
proof -
  have h: "fst (get_job_openings_try env0 st0 ''engineer'' 0) =
     Inl (ValidationError ''JobOpeningQuery'' [(''max_results'', ''greater_than'')])"
    by (simp add: get_job_openings_try_def JobOpeningQuery_init_def JobOpeningQuery_errors_def)
  show ?thesis
    using h validation_error_generic_message [OF h] by simp
qed

subsection \<open>Credentials in the client configuration\<close>

text \<open>
  C10. The configuration holds \<^verbatim>\<open>aws_access_key_id\<close>, and likewise
  \<^verbatim>\<open>aws_secret_access_key\<close>, exactly when both settings are present and not empty, and
  then with the values of the settings; otherwise it holds the region and nothing else.
  The region is always there.
\<close>

theorem boto3_config_credentials:
  "(get_boto3_config s ''aws_access_key_id'' \<noteq> None \<longleftrightarrow>
      truthy_str (aws_access_key_id s) \<and> truthy_str (aws_secret_access_key s))
   \<and> (get_boto3_config s ''aws_secret_access_key'' \<noteq> None \<longleftrightarrow>
      truthy_str (aws_access_key_id s) \<and> truthy_str (aws_secret_access_key s))
   \<and> (truthy_str (aws_access_key_id s) \<and> truthy_str (aws_secret_access_key s) \<longrightarrow>
        get_boto3_config s ''aws_access_key_id'' = aws_access_key_id s
      \<and> get_boto3_config s ''aws_secret_access_key'' = aws_secret_access_key s)
   \<and> (\<not> (truthy_str (aws_access_key_id s) \<and> truthy_str (aws_secret_access_key s)) \<longrightarrow>
        get_boto3_config s = [''region_name'' \<mapsto> aws_region s])
   \<and> get_boto3_config s ''region_name'' = Some (aws_region s)
   \<and> (truthy_str (aws_access_key_id s) \<longleftrightarrow>
        (\<exists>k. aws_access_key_id s = Some k \<and> k \<noteq> []))
   \<and> (truthy_str (aws_secret_access_key s) \<longleftrightarrow>
        (\<exists>k. aws_secret_access_key s = Some k \<and> k \<noteq> []))"
  by (auto simp: get_boto3_config_def truthy_str_def Let_def split: option.splits)

theorem boto3_config_credentials_witness:
  "get_boto3_config settings0 =
     [''region_name'' \<mapsto> ''us-east-1'', ''aws_access_key_id'' \<mapsto> ''test-access-key'',
      ''aws_secret_access_key'' \<mapsto> ''test-secret-key'']
   \<and> get_boto3_config (settings0\<lparr>aws_secret_access_key := None\<rparr>) =
     [''region_name'' \<mapsto> ''us-east-1'']
   \<and> get_boto3_config (settings0\<lparr>aws_access_key_id := Some ''''\<rparr>) =
     [''region_name'' \<mapsto> ''us-east-1'']"
  using boto3_config_credentials [of settings0]
    boto3_config_credentials [of "settings0\<lparr>aws_secret_access_key := None\<rparr>"]
    boto3_config_credentials [of "settings0\<lparr>aws_access_key_id := Some ''''\<rparr>"]
  by (simp add: settings0_def get_boto3_config_def truthy_str_def)

subsection \<open>Failures at the tool boundary\<close>

lemma client_ignores_log:
  "fst (get_bedrock_client env (server_log m l st)) = fst (get_bedrock_client env st)"
  by (simp add: get_bedrock_client_def BedrockClient_init_def get_settings_def server_log_def
      split: option.splits sum.splits prod.splits)

lemma query_valid:
  "qt \<noteq> [] \<Longrightarrow> 0 < mr \<Longrightarrow> mr \<le> 100 \<Longrightarrow>
   JobOpeningQuery_init qt (Some mr) = Inr \<lparr>query_text = qt, max_results = mr\<rparr>"
  by (auto simp: JobOpeningQuery_init_def JobOpeningQuery_errors_def Let_def)

lemma retrieve_raises:
  "client c (knowledge_base_id c) qt mr = Inl e \<Longrightarrow>
   fst (retrieve_job_openings env c st qt mr) = Inl (fst (retrieve_except env e st'))"
  by (cases e)
    (simp_all add: retrieve_job_openings_def retrieve_try_def retrieve_except_def Let_def
      split: prod.splits option.splits)

lemma retrieve_except_is_client_error:
  "\<exists>msg. fst (retrieve_except env e st) = BedrockClientError msg"
  by (cases e) (simp_all add: retrieve_except_def Let_def)

lemma boundary_on_client_error:
  assumes "qt \<noteq> []" "0 < mr" "mr \<le> 100"
    and "fst (get_bedrock_client env st) = Inr c"
    and "\<And>st'. \<exists>msg. fst (retrieve_job_openings env c st' qt mr) = Inl (BedrockClientError msg)"
  shows "fst (get_job_openings env st qt mr) =
           Inr ''Failed to retrieve job openings. Please try again later.''"
proof -
  let ?st1 = "server_log
     (''Processing query: '' @ [CHR 0x27] @ qt @ [CHR 0x27] @
        '' (max_results='' @ str_int mr @ '')'') ''INFO'' st"
  obtain x st2 where g: "get_bedrock_client env ?st1 = (x, st2)"
    by (cases "get_bedrock_client env ?st1")
  have "fst (get_bedrock_client env ?st1) = Inr c"
    using assms(4) by (simp add: client_ignores_log)
  with g have x: "x = Inr c" by simp
  obtain y st3 where r: "retrieve_job_openings env c st2 qt mr = (y, st3)"
    by (cases "retrieve_job_openings env c st2 qt mr")
  from assms(5) [of st2] r obtain msg where y: "y = Inl (BedrockClientError msg)"
    by auto
  have "get_job_openings_try env st qt mr = (Inl (BedrockClientError msg), st3)"
    using query_valid [OF assms(1-3)] g x r y
    by (simp add: get_job_openings_try_def Let_def)
  then show ?thesis
    by (simp add: get_job_openings_def)
qed

lemma built_client_of:
  "fst (get_bedrock_client (env_of h) st0) = Inr (client_of h)"
  by (simp add: get_bedrock_client_def BedrockClient_init_def get_settings_def env_of_def
      env0_def st0_def client_of_def settings0_def)

lemma try_no_settings:
  "fst (get_job_openings_try env_no_settings st0 ''engineer'' 10) =
     Inl (ValidationError ''Settings'' [(''aws_region'', ''missing'')])"
  by (simp add: get_job_openings_try_def JobOpeningQuery_init_def JobOpeningQuery_errors_def
      get_bedrock_client_def BedrockClient_init_def get_settings_def env_no_settings_def
      env0_def st0_def server_log_def Let_def)

lemma try_empty:
  "fst (get_job_openings_try env0 st0 ''engineer'' 10) =
     Inr ''No job openings found matching your query.''"
  by (simp add: get_job_openings_try_def JobOpeningQuery_init_def JobOpeningQuery_errors_def
      get_bedrock_client_def BedrockClient_init_def get_settings_def
      env0_def st0_def server_log_def Let_def retrieve_job_openings_def retrieve_try_def
      handle_empty_def BedrockClient_log_def JobOpeningsResponse_init_def
      validate_total_results_def format_job_openings_response_def)

text \<open>
  C3. For every query text, every \<^verbatim>\<open>max_results\<close>, every state of the process and every
  behaviour of the settings, of \<^verbatim>\<open>boto3.client\<close> and of the handle's \<^verbatim>\<open>retrieve\<close>,
  \<^verbatim>\<open>get_job_openings\<close> returns a string and raises nothing: the string its \<^verbatim>\<open>try\<close> body
  returned, or, when the body raised, one of the two fixed messages (the "Failed to
  retrieve" one exactly for a \<^verbatim>\<open>BedrockClientError\<close>).
\<close>

theorem get_job_openings_returns_string:
  "\<exists>s. fst (get_job_openings env st qt mr) = Inr s
      \<and> (\<forall>out. fst (get_job_openings_try env st qt mr) = Inr out \<longrightarrow> s = out)
      \<and> (\<forall>m. fst (get_job_openings_try env st qt mr) = Inl (BedrockClientError m) \<longrightarrow>
            s = ''Failed to retrieve job openings. Please try again later.'')
      \<and> (isl (fst (get_job_openings_try env st qt mr)) \<longrightarrow>
            s = ''Failed to retrieve job openings. Please try again later.''
          \<or> s = ''An unexpected error occurred. Please try again later.'')"
  by (auto simp: get_job_openings_def split: prod.splits sum.splits exn.splits)

theorem get_job_openings_returns_string_witness:
  "isl (fst (get_job_openings_try env_no_settings st0 ''engineer'' 10))
   \<and> fst (get_job_openings env_no_settings st0 ''engineer'' 10) =
       Inr ''An unexpected error occurred. Please try again later.''
   \<and> fst (get_job_openings env0 st0 ''engineer'' 10) =
       Inr ''No job openings found matching your query.''"
proof -
  from get_job_openings_returns_string [of env_no_settings st0 "''engineer''" 10]
  obtain s where s: "fst (get_job_openings env_no_settings st0 ''engineer'' 10) = Inr s"
    and alt: "s = ''Failed to retrieve job openings. Please try again later.''
          \<or> s = ''An unexpected error occurred. Please try again later.''"
    and bce: "\<forall>m. fst (get_job_openings_try env_no_settings st0 ''engineer'' 10) = Inl (BedrockClientError m) \<longrightarrow>
            s = ''Failed to retrieve job openings. Please try again later.''"
    using try_no_settings by auto
  have "s = ''An unexpected error occurred. Please try again later.''"
    using s try_no_settings
    by (auto simp: get_job_openings_def split: prod.splits sum.splits exn.splits)
  moreover
  from get_job_openings_returns_string [of env0 st0 "''engineer''" 10] try_empty
  have "fst (get_job_openings env0 st0 ''engineer'' 10) =
       Inr ''No job openings found matching your query.''"
    by auto
  ultimately show ?thesis
    using s try_no_settings by simp
qed

text \<open>
  C4. Let the query be valid and the client built, and let the handle's \<^verbatim>\<open>retrieve\<close>
  raise \<open>e\<close>. Then \<^verbatim>\<open>retrieve_job_openings\<close> raises a \<^verbatim>\<open>BedrockClientError\<close> whose message
  is "AWS error during retrieval: code - message" for a \<^verbatim>\<open>ClientError\<close> carrying that code
  and message, "Failed to retrieve job openings: " followed by \<^verbatim>\<open>str(e)\<close> for a
  \<^verbatim>\<open>BotoCoreError\<close>, and "Unexpected error during retrieval: " followed by \<^verbatim>\<open>str(e)\<close> for
  any other exception; and \<^verbatim>\<open>get_job_openings\<close> returns exactly
  "Failed to retrieve job openings. Please try again later.".
\<close>

theorem retrieval_failure_classified:
  assumes valid: "qt \<noteq> []" "0 < mr" "mr \<le> 100"
    and built: "fst (get_bedrock_client env st) = Inr c"
    and raised: "client c (knowledge_base_id c) qt mr = Inl e"
  shows "\<exists>msg.
      (\<forall>st'. fst (retrieve_job_openings env c st' qt mr) = Inl (BedrockClientError msg))
    \<and> (\<forall>code message d. e = ClientError \<lparr>Error = Some \<lparr>Code = Some code, Message = Some message\<rparr>\<rparr> d
          \<longrightarrow> msg = ''AWS error during retrieval: '' @ code @ '' - '' @ message
            \<and> sublist code msg \<and> sublist message msg)
    \<and> (\<forall>d. e = BotoCoreError d
          \<longrightarrow> msg = ''Failed to retrieve job openings: '' @ d \<and> sublist d msg)
    \<and> ((\<forall>r d. e \<noteq> ClientError r d) \<and> (\<forall>d. e \<noteq> BotoCoreError d)
          \<longrightarrow> msg = ''Unexpected error during retrieval: '' @ str_exn (str_validation env) e
            \<and> sublist (str_exn (str_validation env) e) msg)
    \<and> fst (get_job_openings env st qt mr) =
        Inr ''Failed to retrieve job openings. Please try again later.''"
proof -
  obtain msg where m: "fst (retrieve_except env e st) = BedrockClientError msg"
    using retrieve_except_is_client_error by blast
  have r: "fst (retrieve_job_openings env c st' qt mr) = Inl (BedrockClientError msg)" for st'
    using retrieve_raises [OF raised, of env st' st] m by simp
  have ce: "msg = ''AWS error during retrieval: '' @ code @ '' - '' @ message
            \<and> sublist code msg \<and> sublist message msg"
    if "e = ClientError \<lparr>Error = Some \<lparr>Code = Some code, Message = Some message\<rparr>\<rparr> d"
    for code message d
  proof -
    have eq: "msg = ''AWS error during retrieval: '' @ code @ '' - '' @ message"
      using m that by (simp add: retrieve_except_def)
    have s1: "sublist code (''AWS error during retrieval: '' @ code @ '' - '' @ message)"
      by (rule sublist_appendI)
    have "sublist message ((''AWS error during retrieval: '' @ code @ '' - '') @ message)"
      by (rule sublist_append_leftI)
    then have s2: "sublist message (''AWS error during retrieval: '' @ code @ '' - '' @ message)"
      by simp
    show ?thesis using eq s1 s2 by simp
  qed
  have be: "msg = ''Failed to retrieve job openings: '' @ d \<and> sublist d msg"
    if "e = BotoCoreError d" for d
  proof -
    have eq: "msg = ''Failed to retrieve job openings: '' @ d"
      using m that by (simp add: retrieve_except_def)
    have "sublist d (''Failed to retrieve job openings: '' @ d)"
      by (rule sublist_append_leftI)
    with eq show ?thesis by simp
  qed
  have oe: "msg = ''Unexpected error during retrieval: '' @ str_exn (str_validation env) e
            \<and> sublist (str_exn (str_validation env) e) msg"
    if "\<forall>r d. e \<noteq> ClientError r d" "\<forall>d. e \<noteq> BotoCoreError d"
  proof -
    have eq: "msg = ''Unexpected error during retrieval: '' @ str_exn (str_validation env) e"
      using m that by (cases e) (simp_all add: retrieve_except_def)
    have "sublist (str_exn (str_validation env) e)
            (''Unexpected error during retrieval: '' @ str_exn (str_validation env) e)"
      by (rule sublist_append_leftI)
    with eq show ?thesis by simp
  qed
  have b: "fst (get_job_openings env st qt mr) =
        Inr ''Failed to retrieve job openings. Please try again later.''"
    using valid built r by (intro boundary_on_client_error) auto
  show ?thesis
    using r ce be oe b by blast
qed

theorem retrieval_failure_classified_witness:
  "fst (retrieve_job_openings (env_of handle_client_error) (client_of handle_client_error)
          st0 ''software engineer'' 10) =
     Inl (BedrockClientError
            ''AWS error during retrieval: ValidationException - Invalid KB ID'')
   \<and> sublist ''ValidationException''
       ''AWS error during retrieval: ValidationException - Invalid KB ID''
   \<and> fst (get_job_openings (env_of handle_client_error) st0 ''software engineer'' 10) =
       Inr ''Failed to retrieve job openings. Please try again later.''
   \<and> fst (retrieve_job_openings (env_of handle_botocore_error)
            (client_of handle_botocore_error) st0 ''software engineer'' 10) =
       Inl (BedrockClientError
              ''Failed to retrieve job openings: An unspecified error occurred'')
   \<and> fst (get_job_openings (env_of handle_botocore_error) st0 ''software engineer'' 10) =
       Inr ''Failed to retrieve job openings. Please try again later.''
   \<and> fst (retrieve_job_openings (env_of handle_other_error)
            (client_of handle_other_error) st0 ''software engineer'' 10) =
       Inl (BedrockClientError ''Unexpected error during retrieval: connection reset'')
   \<and> fst (get_job_openings (env_of handle_other_error) st0 ''software engineer'' 10) =
       Inr ''Failed to retrieve job openings. Please try again later.''"
proof -
  have v: "''software engineer'' \<noteq> []" "(0::int) < 10" "(10::int) \<le> 100"
    by simp_all
  have r1: "client (client_of handle_client_error)
              (knowledge_base_id (client_of handle_client_error)) ''software engineer'' 10 =
            Inl (ClientError
                  \<lparr>Error = Some \<lparr>Code = Some ''ValidationException'',
                                 Message = Some ''Invalid KB ID''\<rparr>\<rparr>
                  ''An error occurred (ValidationException) when calling the retrieve operation'')"
    by (simp add: client_of_def handle_client_error_def)
  have r2: "client (client_of handle_botocore_error)
              (knowledge_base_id (client_of handle_botocore_error)) ''software engineer'' 10 =
            Inl (BotoCoreError ''An unspecified error occurred'')"
    by (simp add: client_of_def handle_botocore_error_def)
  have r3: "client (client_of handle_other_error)
              (knowledge_base_id (client_of handle_other_error)) ''software engineer'' 10 =
            Inl (OtherException ''connection reset'')"
    by (simp add: client_of_def handle_other_error_def)
  from retrieval_failure_classified [OF v built_client_of r1]
  have c1: "fst (retrieve_job_openings (env_of handle_client_error) (client_of handle_client_error)
          st0 ''software engineer'' 10) =
     Inl (BedrockClientError
            ''AWS error during retrieval: ValidationException - Invalid KB ID'')
     \<and> sublist ''ValidationException''
       ''AWS error during retrieval: ValidationException - Invalid KB ID''
     \<and> fst (get_job_openings (env_of handle_client_error) st0 ''software engineer'' 10) =
       Inr ''Failed to retrieve job openings. Please try again later.''"
    by fastforce
  from retrieval_failure_classified [OF v built_client_of r2]
  have c2: "fst (retrieve_job_openings (env_of handle_botocore_error)
            (client_of handle_botocore_error) st0 ''software engineer'' 10) =
       Inl (BedrockClientError
              ''Failed to retrieve job openings: An unspecified error occurred'')
     \<and> fst (get_job_openings (env_of handle_botocore_error) st0 ''software engineer'' 10) =
       Inr ''Failed to retrieve job openings. Please try again later.''"
    by fastforce
  from retrieval_failure_classified [OF v built_client_of r3]
  have c3: "fst (retrieve_job_openings (env_of handle_other_error)
            (client_of handle_other_error) st0 ''software engineer'' 10) =
       Inl (BedrockClientError ''Unexpected error during retrieval: connection reset'')
     \<and> fst (get_job_openings (env_of handle_other_error) st0 ''software engineer'' 10) =
       Inr ''Failed to retrieve job openings. Please try again later.''"
    by (fastforce simp: env_of_def env0_def)
  show ?thesis
    using c1 c2 c3 by blast
qed

subsection \<open>Parsing the entries of a response\<close>

lemma score_errors_ok:
  "(score_errors sc = []) = (\<forall>x. sc = Some x \<longrightarrow> float_ge_zero x \<and> float_le_one x)"
  by (auto simp: score_errors_def split: option.splits)

lemma parse_retrieve_result_ok:
  assumes "\<forall>x. raw_score raw = Some x \<longrightarrow> float_ge_zero x \<and> float_le_one x"
  shows "parse_retrieve_result raw =
     Inr \<lparr>content = (case raw_content raw of None \<Rightarrow> ''''
                      | Some c \<Rightarrow> (case content_text c of None \<Rightarrow> '''' | Some t \<Rightarrow> t)),
          score = raw_score raw,
          metadata = (case raw_metadata raw of None \<Rightarrow> [] | Some m \<Rightarrow> m),
          source = (case raw_location raw of None \<Rightarrow> None
                    | Some l \<Rightarrow> if truthy_location l then Some (parse_source_metadata l)
                                else None)\<rparr>"
  using assms score_errors_ok [of "raw_score raw"]
  by (simp add: parse_retrieve_result_def JobOpeningResult_init_def Let_def
      split: option.splits)

lemma parse_retrieve_result_bad:
  assumes "raw_score raw = Some x" "\<not> (float_ge_zero x \<and> float_le_one x)"
  shows "\<exists>errs. parse_retrieve_result raw = Inl (ValidationError ''JobOpeningResult'' errs)"
  using assms score_errors_ok [of "raw_score raw"]
  by (simp add: parse_retrieve_result_def JobOpeningResult_init_def Let_def)

lemma parse_retrieve_result_cases:
  "(\<exists>j. parse_retrieve_result raw = Inr j)
   \<or> (\<exists>errs. parse_retrieve_result raw = Inl (ValidationError ''JobOpeningResult'' errs))"
  by (simp add: parse_retrieve_result_def JobOpeningResult_init_def Let_def)

lemma parse_all_ok:
  "\<forall>raw \<in> set raws. \<forall>x. raw_score raw = Some x \<longrightarrow> float_ge_zero x \<and> float_le_one x \<Longrightarrow>
   \<exists>js. parse_all raws = Inr js
       \<and> list_all2 (\<lambda>raw j. parse_retrieve_result raw = Inr j) raws js"
proof (induction raws)
  case Nil
  then show ?case by simp
next
  case (Cons raw raws)
  then obtain js where js: "parse_all raws = Inr js"
      "list_all2 (\<lambda>raw j. parse_retrieve_result raw = Inr j) raws js"
    by auto
  from Cons.prems obtain j where j: "parse_retrieve_result raw = Inr j"
    using parse_retrieve_result_ok [of raw] by auto
  show ?case
    using js j by simp
qed

lemma parse_all_bad:
  "\<exists>raw \<in> set raws. \<exists>x. raw_score raw = Some x \<and> \<not> (float_ge_zero x \<and> float_le_one x) \<Longrightarrow>
   \<exists>errs. parse_all raws = Inl (ValidationError ''JobOpeningResult'' errs)"
proof (induction raws)
  case Nil
  then show ?case by simp
next
  case (Cons raw raws)
  show ?case
  proof (cases "\<exists>x. raw_score raw = Some x \<and> \<not> (float_ge_zero x \<and> float_le_one x)")
    case True
    then obtain errs where "parse_retrieve_result raw = Inl (ValidationError ''JobOpeningResult'' errs)"
      using parse_retrieve_result_bad [of raw] by blast
    then show ?thesis by simp
  next
    case False
    with Cons.prems have "\<exists>raw \<in> set raws. \<exists>x. raw_score raw = Some x
        \<and> \<not> (float_ge_zero x \<and> float_le_one x)"
      by auto
    from Cons.IH [OF this] obtain errs where
      e: "parse_all raws = Inl (ValidationError ''JobOpeningResult'' errs)" by blast
    from parse_retrieve_result_cases [of raw] show ?thesis
      using e by auto
  qed
qed

lemma parse_all_length:
  "parse_all raws = Inr js \<Longrightarrow> length js = length raws"
  by (induction raws arbitrary: js) (auto split: sum.splits)

text \<open>
  C5, as the claim states it, fails: not every list of entries yields a response. Of
  the two entries here the second has the score 1.5; \<^verbatim>\<open>JobOpeningResult\<close> rejects it
  (\<^verbatim>\<open>le=1.0\<close>), the \<^verbatim>\<open>except Exception\<close> clause takes the \<^verbatim>\<open>ValidationError\<close>, and the
  whole call raises, the first entry included.
\<close>

theorem out_of_range_score_fails_retrieval:
  "fst (retrieve_job_openings (env_of handle_bad_score) (client_of handle_bad_score) st0
          ''engineer'' 10) =
     Inl (BedrockClientError ''Unexpected error during retrieval: JobOpeningResult'')"
  by (simp add: retrieve_job_openings_def retrieve_try_def Let_def retrieve_except_def
      client_of_def handle_bad_score_def raw_se_def raw_bad_score_def float_0_95_def
      float_1_5_def parse_retrieve_result_def JobOpeningResult_init_def score_errors_def
      env_of_def env0_def)


text \<open>
  C5, amended. Let the handle's \<^verbatim>\<open>retrieve\<close> return a response and \<open>raws\<close> be its list of
  entries (empty when the key is missing). If every score that is present lies in
  \<open>[0, 1]\<close>, \<^verbatim>\<open>retrieve_job_openings\<close> returns a response with exactly one result per entry,
  in the order of the entries, each the parse of its entry (content text or the empty
  string, the score or \<^verbatim>\<open>None\<close>, the metadata or the empty dict, the source parsed from a
  non-empty location or \<^verbatim>\<open>None\<close>), and \<^verbatim>\<open>total_results\<close> is the number of entries. If some
  score lies outside \<open>[0, 1]\<close>, the call raises a \<^verbatim>\<open>BedrockClientError\<close> and returns
  nothing. An entry without any key parses to the empty content, no score, empty
  metadata and no source.
\<close>

theorem retrieve_parses_every_entry:
  assumes "client self (knowledge_base_id self) qt mr = Inr response"
    and raws_def: "raws = (case retrievalResults response of None \<Rightarrow> [] | Some l \<Rightarrow> l)"
  shows "((\<forall>raw \<in> set raws. \<forall>x. raw_score raw = Some x \<longrightarrow> float_ge_zero x \<and> float_le_one x)
          \<longrightarrow> (\<exists>resp. fst (retrieve_job_openings env self st qt mr) = Inr resp
                 \<and> length (results resp) = length raws
                 \<and> total_results resp = int (length raws)
                 \<and> (\<forall>i < length raws.
                       parse_retrieve_result (raws ! i) = Inr (results resp ! i)
                     \<and> content (results resp ! i) =
                         (case raw_content (raws ! i) of None \<Rightarrow> ''''
                          | Some c \<Rightarrow> (case content_text c of None \<Rightarrow> '''' | Some t \<Rightarrow> t))
                     \<and> score (results resp ! i) = raw_score (raws ! i)
                     \<and> metadata (results resp ! i) =
                         (case raw_metadata (raws ! i) of None \<Rightarrow> [] | Some m \<Rightarrow> m)
                     \<and> source (results resp ! i) =
                         (case raw_location (raws ! i) of None \<Rightarrow> None
                          | Some l \<Rightarrow> if truthy_location l
                                      then Some (parse_source_metadata l) else None))))
       \<and> ((\<exists>raw \<in> set raws. \<exists>x. raw_score raw = Some x
               \<and> \<not> (float_ge_zero x \<and> float_le_one x))
          \<longrightarrow> (\<exists>msg. fst (retrieve_job_openings env self st qt mr) =
                        Inl (BedrockClientError msg)))
       \<and> parse_retrieve_result
           \<lparr>raw_content = None, raw_score = None, raw_metadata = None, raw_location = None\<rparr> =
         Inr \<lparr>content = '''', score = None, metadata = [], source = None\<rparr>"
proof (intro conjI impI)
  assume ok: "\<forall>raw \<in> set raws. \<forall>x. raw_score raw = Some x \<longrightarrow> float_ge_zero x \<and> float_le_one x"
  from parse_all_ok [OF this] obtain js where js: "parse_all raws = Inr js"
    and all2: "list_all2 (\<lambda>raw j. parse_retrieve_result raw = Inr j) raws js"
    by blast
  have len: "length js = length raws"
    using js by (rule parse_all_length)
  let ?resp = "\<lparr>results = js, total_results = int (length js)\<rparr>"
  have r: "fst (retrieve_job_openings env self st qt mr) = Inr ?resp"
    using assms(1) js
    by (simp add: retrieve_job_openings_def retrieve_try_def Let_def raws_def
        JobOpeningsResponse_init_def validate_total_results_def)
  have each: "parse_retrieve_result (raws ! i) = Inr (js ! i)" if "i < length raws" for i
    using all2 that by (simp add: list_all2_conv_all_nth)
  have fields: "content (js ! i) =
                         (case raw_content (raws ! i) of None \<Rightarrow> ''''
                          | Some c \<Rightarrow> (case content_text c of None \<Rightarrow> '''' | Some t \<Rightarrow> t))
                     \<and> score (js ! i) = raw_score (raws ! i)
                     \<and> metadata (js ! i) =
                         (case raw_metadata (raws ! i) of None \<Rightarrow> [] | Some m \<Rightarrow> m)
                     \<and> source (js ! i) =
                         (case raw_location (raws ! i) of None \<Rightarrow> None
                          | Some l \<Rightarrow> if truthy_location l
                                      then Some (parse_source_metadata l) else None)"
    if "i < length raws" for i
  proof -
    have "raws ! i \<in> set raws" using that by simp
    with ok have "\<forall>x. raw_score (raws ! i) = Some x \<longrightarrow> float_ge_zero x \<and> float_le_one x"
      by blast
    from parse_retrieve_result_ok [OF this] each [OF that] show ?thesis
      by simp
  qed
  show "\<exists>resp. fst (retrieve_job_openings env self st qt mr) = Inr resp
                 \<and> length (results resp) = length raws
                 \<and> total_results resp = int (length raws)
                 \<and> (\<forall>i < length raws.
                       parse_retrieve_result (raws ! i) = Inr (results resp ! i)
                     \<and> content (results resp ! i) =
                         (case raw_content (raws ! i) of None \<Rightarrow> ''''
                          | Some c \<Rightarrow> (case content_text c of None \<Rightarrow> '''' | Some t \<Rightarrow> t))
                     \<and> score (results resp ! i) = raw_score (raws ! i)
                     \<and> metadata (results resp ! i) =
                         (case raw_metadata (raws ! i) of None \<Rightarrow> [] | Some m \<Rightarrow> m)
                     \<and> source (results resp ! i) =
                         (case raw_location (raws ! i) of None \<Rightarrow> None
                          | Some l \<Rightarrow> if truthy_location l
                                      then Some (parse_source_metadata l) else None))"
    using r len each fields by (intro exI [of _ ?resp]) simp
next
  assume "\<exists>raw \<in> set raws. \<exists>x. raw_score raw = Some x
               \<and> \<not> (float_ge_zero x \<and> float_le_one x)"
  from parse_all_bad [OF this] obtain errs where
    "parse_all raws = Inl (ValidationError ''JobOpeningResult'' errs)" by blast
  then show "\<exists>msg. fst (retrieve_job_openings env self st qt mr) = Inl (BedrockClientError msg)"
    using assms(1)
    by (simp add: retrieve_job_openings_def retrieve_try_def Let_def raws_def
        retrieve_except_def)
next
  show "parse_retrieve_result
           \<lparr>raw_content = None, raw_score = None, raw_metadata = None, raw_location = None\<rparr> =
         Inr \<lparr>content = '''', score = None, metadata = [], source = None\<rparr>"
    by (simp add: parse_retrieve_result_def JobOpeningResult_init_def score_errors_def)
qed

theorem retrieve_parses_every_entry_witness:
  "fst (retrieve_job_openings (env_of handle_sample) (client_of handle_sample) st0
          ''software engineer'' 10) =
     Inr \<lparr>results =
            [\<lparr>content = ''Software Engineer - Remote position'', score = Some float_0_95,
              metadata = [(''job_id'', ''12345''), (''department'', ''Engineering'')],
              source = Some \<lparr>type = ''S3'', s3_location = Some [(''uri'', ''s3://jobs/se.pdf'')],
                             web_location = None\<rparr>\<rparr>,
             \<lparr>content = '''', score = None, metadata = [], source = None\<rparr>,
             \<lparr>content = ''Senior Data Scientist position'', score = Some float_0_87,
              metadata = [(''job_id'', ''67890''), (''department'', ''Data'')],
              source = Some \<lparr>type = ''S3'', s3_location = Some [(''uri'', ''s3://jobs/ds.pdf'')],
                             web_location = None\<rparr>\<rparr>],
          total_results = 3\<rparr>"
proof -
  let ?raws = "[raw_se, raw_missing, raw_ds]"
  have c: "client (client_of handle_sample) (knowledge_base_id (client_of handle_sample))
             ''software engineer'' 10 = Inr \<lparr>retrievalResults = Some ?raws\<rparr>"
    by (simp add: client_of_def handle_sample_def)
  have d: "?raws = (case retrievalResults \<lparr>retrievalResults = Some ?raws\<rparr> of
                      None \<Rightarrow> [] | Some l \<Rightarrow> l)"
    by simp
  have ok: "\<forall>raw \<in> set ?raws. \<forall>x. raw_score raw = Some x \<longrightarrow>
              float_ge_zero x \<and> float_le_one x"
    by (simp add: raw_se_def raw_missing_def raw_ds_def float_0_95_def float_0_87_def)
  from retrieve_parses_every_entry [OF c d, of "env_of handle_sample" st0] ok
  obtain resp where r: "fst (retrieve_job_openings (env_of handle_sample)
        (client_of handle_sample) st0 ''software engineer'' 10) = Inr resp"
    and len: "length (results resp) = 3" and tot: "total_results resp = 3"
    and each: "\<forall>i < 3. parse_retrieve_result (?raws ! i) = Inr (results resp ! i)"
    by auto
  obtain a b c' where abc: "results resp = [a, b, c']"
    using len by (auto simp: length_Suc_conv numeral_3_eq_3)
  have 0: "parse_retrieve_result raw_se = Inr a"
    using each abc by (auto dest: spec [of _ 0])
  have 1: "parse_retrieve_result raw_missing = Inr b"
    using each abc by (auto dest: spec [of _ 1])
  have 2: "parse_retrieve_result raw_ds = Inr c'"
    using each abc by (auto dest: spec [of _ 2])
  have "resp = \<lparr>results = [a, b, c'], total_results = 3\<rparr>"
    using abc tot by simp
  then show ?thesis
    using r 0 1 2
    by (simp add: raw_se_def raw_missing_def raw_ds_def parse_retrieve_result_def
        JobOpeningResult_init_def score_errors_def float_0_95_def float_0_87_def
        truthy_location_def parse_source_metadata_def Let_def)
qed

subsection \<open>The relevance score in a formatted block\<close>

text \<open>
  The code's \<^verbatim>\<open>f"{score * 100:.1f}"\<close> against the specification's words, step by step:
  the bit length, the rounding of the float product and of the tenths, the decimal
  numerals. Each step is shown to satisfy its specification, and each specification to
  admit one answer only.
\<close>

lemma bit_length_0: "bit_length 0 = 0"
  by (subst bit_length.simps) simp

lemma bit_length_pos: "n \<noteq> 0 \<Longrightarrow> bit_length n = bit_length (n div 2) + 1"
  by (subst bit_length.simps) simp

lemma bit_length_upper: "n < 2 ^ bit_length n"
proof (induction n rule: bit_length.induct)
  case (1 n)
  show ?case
  proof (cases "n = 0")
    case True
    then show ?thesis by simp
  next
    case False
    with 1 have "n div 2 < 2 ^ bit_length (n div 2)" by simp
    then have "n < 2 * 2 ^ bit_length (n div 2)" by linarith
    then show ?thesis
      using bit_length_pos [OF False] by simp
  qed
qed

lemma bit_length_lower: "n \<noteq> 0 \<Longrightarrow> 2 ^ (bit_length n - 1) \<le> n"
proof (induction n rule: bit_length.induct)
  case (1 n)
  show ?case
  proof (cases "n div 2 = 0")
    case True
    with 1(2) have "bit_length n = 1"
      using bit_length_pos [of n] bit_length_0 by simp
    with 1(2) show ?thesis by simp
  next
    case False
    with 1 have ih: "2 ^ (bit_length (n div 2) - 1) \<le> n div 2" by simp
    have b: "bit_length (n div 2) = bit_length (n div 2 div 2) + 1"
      using False by (rule bit_length_pos)
    have "bit_length n - 1 = Suc (bit_length (n div 2) - 1)"
      using bit_length_pos [OF 1(2)] b by simp
    then have "(2::nat) ^ (bit_length n - 1) = 2 * 2 ^ (bit_length (n div 2) - 1)"
      by simp
    also have "\<dots> \<le> 2 * (n div 2)"
      using ih by simp
    also have "\<dots> \<le> n" by simp
    finally show ?thesis .
  qed
qed

lemma round_half_even_nearest: "spec_nearest (round_half_even a k) a k"
proof -
  define q where "q = a div 2 ^ k"
  define r where "r = a mod 2 ^ k"
  have "a = q * 2 ^ k + r"
    unfolding q_def r_def by (rule div_mult_mod_eq [symmetric])
  then have "int a = int (q * 2 ^ k + r)"
    by (rule arg_cong)
  then have a: "int a = int q * 2 ^ k + int r"
    by simp
  have "r < 2 ^ k"
    unfolding r_def by simp
  then have "int r < int (2 ^ k)"
    by (rule iffD2 [OF of_nat_less_iff])
  then have r: "int r < 2 ^ k"
    by simp
  have "(2 ^ k < 2 * r) = (int (2 ^ k) < int (2 * r))"
    by (rule of_nat_less_iff [symmetric])
  then have c: "(2 ^ k < 2 * r) = ((2::int) ^ k < 2 * int r)"
    by simp
  have "(2 * r = 2 ^ k) = (int (2 * r) = int (2 ^ k))"
    by (rule of_nat_eq_iff [symmetric])
  then have d: "(2 * r = 2 ^ k) = (2 * int r = (2::int) ^ k)"
    by simp
  have rhe: "round_half_even a k =
      (if 2 ^ k < 2 * r \<or> (2 * r = 2 ^ k \<and> odd q) then q + 1 else q)"
    by (simp add: round_half_even_def Let_def q_def r_def)
  show ?thesis
  proof (cases "2 ^ k < 2 * r \<or> (2 * r = 2 ^ k \<and> odd q)")
    case True
    then have n: "round_half_even a k = q + 1"
      using rhe by simp
    then have "int (round_half_even a k) * 2 ^ k - int a = 2 ^ k - int r"
      using a by (simp add: algebra_simps)
    moreover from True c d have "(2::int) ^ k \<le> 2 * int r"
      by auto
    moreover have "even (q + 1)" if "2 * int r = (2::int) ^ k"
      using that True c d by auto
    ultimately show ?thesis
      using r n unfolding spec_nearest_def by auto
  next
    case False
    then have n: "round_half_even a k = q"
      using rhe by simp
    then have "int (round_half_even a k) * 2 ^ k - int a = - int r"
      using a by simp
    moreover from False c have "2 * int r \<le> (2::int) ^ k"
      by auto
    moreover have "even q" if "2 * int r = (2::int) ^ k"
      using that False c d by auto
    ultimately show ?thesis
      using n unfolding spec_nearest_def by auto
  qed
qed

lemma float_mul_100_rounds:
  "\<exists>m' e'. spec_product_100 m e m' e' \<and>
     float_mul_100 (Finite s m e) =
       (if float_overflows m' e' then Infinity s else Finite s m' e')"
proof -
  define p where "p = 100 * m"
  define k where "k = bit_length p - 53"
  have up: "p < 2 ^ (53 + k)"
  proof -
    have "bit_length p \<le> 53 + k" by (simp add: k_def)
    then have "(2::nat) ^ bit_length p \<le> 2 ^ (53 + k)"
      by (rule power_increasing) simp
    with bit_length_upper [of p] show ?thesis by (rule less_le_trans)
  qed
  have low: "k = 0 \<or> 2 ^ (52 + k) \<le> p"
  proof (cases "k = 0")
    case True
    then show ?thesis ..
  next
    case False
    then have b: "bit_length p = 53 + k" by (simp add: k_def)
    have "p \<noteq> 0"
    proof
      assume "p = 0"
      with b bit_length_0 show False by simp
    qed
    then have "2 ^ (bit_length p - 1) \<le> p" by (rule bit_length_lower)
    with b show ?thesis by simp
  qed
  have "spec_product_100 m e (round_half_even p k) (e + int k)"
    unfolding spec_product_100_def
    using up low round_half_even_nearest [of p k]
    by (intro exI [of _ k]) (simp add: p_def)
  moreover have "float_mul_100 (Finite s m e) =
       (if float_overflows (round_half_even p k) (e + int k) then Infinity s
        else Finite s (round_half_even p k) (e + int k))"
    by (simp add: Let_def p_def k_def mult.commute)
  ultimately show ?thesis by blast
qed

lemma tenths_rounds: "spec_tenths m e (tenths m e)"
  using round_half_even_nearest [of "10 * m" "nat (- e)"]
  by (simp add: spec_tenths_def tenths_def mult.commute)

lemma digit_char:
  assumes "d < 10"
  shows "''0123456789'' ! d \<in> set ''0123456789''"
    and "digit_value (''0123456789'' ! d) = d"
    and "d \<noteq> 0 \<Longrightarrow> ''0123456789'' ! d \<noteq> CHR ''0''"
proof -
  from assms have "d = 0 \<or> d = 1 \<or> d = 2 \<or> d = 3 \<or> d = 4 \<or> d = 5 \<or> d = 6 \<or> d = 7
      \<or> d = 8 \<or> d = 9"
    by presburger
  then show "''0123456789'' ! d \<in> set ''0123456789''"
    and "digit_value (''0123456789'' ! d) = d"
    and "d \<noteq> 0 \<Longrightarrow> ''0123456789'' ! d \<noteq> CHR ''0''"
    by (auto simp: digit_value_def)
qed

lemma decimal_value_snoc:
  "decimal_value (t @ [c]) = 10 * decimal_value t + digit_value c"
  by (simp add: decimal_value_def)

lemma str_nat_small: "n < 10 \<Longrightarrow> str_nat n = [''0123456789'' ! n]"
  by (subst str_nat.simps) simp

lemma str_nat_large:
  "\<not> n < 10 \<Longrightarrow> str_nat n = str_nat (n div 10) @ [''0123456789'' ! (n mod 10)]"
  by (subst str_nat.simps) simp

lemma str_nat_props:
  "str_nat n \<noteq> [] \<and> set (str_nat n) \<subseteq> set ''0123456789''
   \<and> (n \<noteq> 0 \<longrightarrow> hd (str_nat n) \<noteq> CHR ''0'')
   \<and> (1 < length (str_nat n) \<longrightarrow> n \<noteq> 0)
   \<and> decimal_value (str_nat n) = n"
proof (induction n rule: str_nat.induct)
  case (1 n)
  show ?case
  proof (cases "n < 10")
    case True
    then show ?thesis
      using digit_char [OF True]
      by (simp add: str_nat_small decimal_value_def)
  next
    case False
    have m: "n mod 10 < 10" by simp
    from False have nz: "n div 10 \<noteq> 0" by simp
    from 1 [OF False] nz have ih:
      "str_nat (n div 10) \<noteq> []" "set (str_nat (n div 10)) \<subseteq> set ''0123456789''"
      "hd (str_nat (n div 10)) \<noteq> CHR ''0''"
      "decimal_value (str_nat (n div 10)) = n div 10"
      by simp_all
    have s: "str_nat n = str_nat (n div 10) @ [''0123456789'' ! (n mod 10)]"
      using False by (rule str_nat_large)
    have "hd (str_nat n) \<noteq> CHR ''0''"
      unfolding s using ih(1,3) by simp
    moreover have "set (str_nat n) \<subseteq> set ''0123456789''"
      unfolding s using ih(2) digit_char(1) [OF m] by simp
    moreover have "decimal_value (str_nat n) = n"
      unfolding s decimal_value_snoc using ih(4) digit_char(2) [OF m] by simp
    moreover have "str_nat n \<noteq> []" "n \<noteq> 0"
      unfolding s using False by simp_all
    ultimately show ?thesis by simp
  qed
qed

lemma str_nat_numeral: "spec_numeral n (str_nat n)"
  using str_nat_props [of n] by (simp add: spec_numeral_def)

lemma format_1f_one_decimal:
  "spec_one_decimal s (tenths m e) (format_1f (Finite s m e))"
proof -
  have "tenths m e mod 10 < 10" by simp
  then have "str_nat (tenths m e mod 10) = [''0123456789'' ! (tenths m e mod 10)]"
    by (rule str_nat_small)
  then show ?thesis
    unfolding spec_one_decimal_def
    using str_nat_numeral [of "tenths m e div 10"] str_nat_numeral [of "tenths m e mod 10"]
    by (intro exI [of _ "str_nat (tenths m e div 10)"]
        exI [of _ "''0123456789'' ! (tenths m e mod 10)"]) (simp add: Let_def)
qed

lemma percent_text_of_score: "spec_percent_text x (format_1f (float_mul_100 x))"
proof (cases x)
  case (Finite s m e)
  from float_mul_100_rounds [of m e s] obtain m' e' where
    p: "spec_product_100 m e m' e'" and
    f: "float_mul_100 (Finite s m e) =
       (if float_overflows m' e' then Infinity s else Finite s m' e')"
    by blast
  let ?t = "format_1f (float_mul_100 (Finite s m e))"
  have "if float_overflows m' e'
        then ?t = (if s then ''-inf'' else ''inf'')
        else (\<exists>n. spec_tenths m' e' n \<and> spec_one_decimal s n ?t)"
  proof (cases "float_overflows m' e'")
    case True
    then have "?t = format_1f (Infinity s)"
      by (simp only: f if_True)
    with True show ?thesis by simp
  next
    case False
    then have "?t = format_1f (Finite s m' e')"
      by (simp only: f if_False)
    then have "spec_tenths m' e' (tenths m' e') \<and> spec_one_decimal s (tenths m' e') ?t"
      using tenths_rounds [of m' e'] format_1f_one_decimal [of s m' e'] by (simp only:)
    then have "\<exists>n. spec_tenths m' e' n \<and> spec_one_decimal s n ?t" ..
    with False show ?thesis by (simp only: if_False)
  qed
  with p have "\<exists>m' e'. spec_product_100 m e m' e' \<and>
       (if float_overflows m' e'
        then ?t = (if s then ''-inf'' else ''inf'')
        else (\<exists>n. spec_tenths m' e' n \<and> spec_one_decimal s n ?t))"
    by blast
  then show ?thesis
    unfolding Finite spec_percent_text_def by (simp only: pyfloat.case)
next
  case (Infinity s)
  then show ?thesis by (simp add: spec_percent_text_def)
qed

lemma spec_nearest_unique_less:
  assumes "spec_nearest n1 a k" "spec_nearest n2 a k" "n1 < n2"
  shows False
proof -
  define P where "P = (2::int) ^ k"
  define X1 where "X1 = int n1 * P"
  define X2 where "X2 = int n2 * P"
  have P: "0 < P" by (simp add: P_def)
  from assms(1) have b1: "\<bar>2 * (X1 - int a)\<bar> \<le> P"
    and t1: "\<bar>2 * (X1 - int a)\<bar> = P \<Longrightarrow> even n1"
    by (simp_all add: spec_nearest_def P_def X1_def)
  from assms(2) have b2: "\<bar>2 * (X2 - int a)\<bar> \<le> P"
    and t2: "\<bar>2 * (X2 - int a)\<bar> = P \<Longrightarrow> even n2"
    by (simp_all add: spec_nearest_def P_def X2_def)
  from assms(3) have "1 \<le> int n2 - int n1" by simp
  then have "1 * P \<le> (int n2 - int n1) * P"
    using P by (intro mult_right_mono) simp_all
  then have d: "P \<le> X2 - X1"
    by (simp add: left_diff_distrib X1_def X2_def)
  from b1 have l1: "- (2 * (X1 - int a)) \<le> P"
    unfolding abs_le_iff by (rule conjunct2)
  from b2 have u2: "2 * (X2 - int a) \<le> P"
    unfolding abs_le_iff by (rule conjunct1)
  from l1 u2 d have "2 * (X1 - int a) = - P"
    by simp
  then have e1: "\<bar>2 * (X1 - int a)\<bar> = P"
    using P by simp
  from l1 u2 d have "2 * (X2 - int a) = P"
    by simp
  then have e2: "\<bar>2 * (X2 - int a)\<bar> = P"
    using P by simp
  from l1 u2 d have e3: "X2 - X1 = P"
    by simp
  from e3 have "(int n2 - int n1) * P = 1 * P"
    by (simp add: left_diff_distrib X1_def X2_def)
  then have "int n2 - int n1 = 1"
    using P by simp
  then have "n2 = Suc n1" by linarith
  with t1 [OF e1] t2 [OF e2] show False by simp
qed

lemma spec_nearest_unique:
  "spec_nearest n1 a k \<Longrightarrow> spec_nearest n2 a k \<Longrightarrow> n1 = n2"
  using spec_nearest_unique_less [of n1 a k n2] spec_nearest_unique_less [of n2 a k n1]
  by (cases n1 n2 rule: linorder_cases) auto

lemma spec_product_100_bits_less:
  assumes "p < 2 ^ (53 + k1)" "k2 = 0 \<or> 2 ^ (52 + k2) \<le> (p::nat)" "k1 < k2"
  shows False
proof -
  from assms(3) have "53 + k1 \<le> 52 + k2" by simp
  then have "(2::nat) ^ (53 + k1) \<le> 2 ^ (52 + k2)"
    by (rule power_increasing) simp
  with assms show False by simp
qed

lemma spec_product_100_unique:
  assumes "spec_product_100 m e m1 e1" "spec_product_100 m e m2 e2"
  shows "m1 = m2 \<and> e1 = e2"
proof -
  from assms(1) obtain k1 where 1: "e1 = e + int k1" "100 * m < 2 ^ (53 + k1)"
      "k1 = 0 \<or> 2 ^ (52 + k1) \<le> 100 * m" "spec_nearest m1 (100 * m) k1"
    unfolding spec_product_100_def by blast
  from assms(2) obtain k2 where 2: "e2 = e + int k2" "100 * m < 2 ^ (53 + k2)"
      "k2 = 0 \<or> 2 ^ (52 + k2) \<le> 100 * m" "spec_nearest m2 (100 * m) k2"
    unfolding spec_product_100_def by blast
  have "k1 = k2"
    using spec_product_100_bits_less [OF 1(2) 2(3)] spec_product_100_bits_less [OF 2(2) 1(3)]
    by (cases k1 k2 rule: linorder_cases) auto
  with 1 2 show ?thesis
    using spec_nearest_unique by auto
qed

lemma spec_tenths_unique: "spec_tenths m e n \<Longrightarrow> n = tenths m e"
  using tenths_rounds [of m e] spec_nearest_unique [of n "10 * m" "nat (- e)" "tenths m e"]
  by (auto simp: spec_tenths_def split: if_splits)

lemma digit_inv:
  assumes "c \<in> set ''0123456789''"
  shows "digit_value c < 10" and "''0123456789'' ! digit_value c = c"
  using assms by (auto simp: digit_value_def)

lemma str_nat_0: "str_nat 0 = ''0''"
  by (simp add: str_nat_small)

lemma spec_numeral_unique: "spec_numeral n t \<Longrightarrow> t = str_nat n"
proof (induction t arbitrary: n rule: rev_induct)
  case Nil
  then show ?case by (simp add: spec_numeral_def)
next
  case (snoc c a)
  from snoc.prems have s: "set (a @ [c]) \<subseteq> set ''0123456789''"
    and l: "1 < length (a @ [c]) \<longrightarrow> hd (a @ [c]) \<noteq> CHR ''0''"
    and v: "10 * decimal_value a + digit_value c = n"
    by (simp_all add: spec_numeral_def decimal_value_snoc)
  from s have c: "c \<in> set ''0123456789''" and a: "set a \<subseteq> set ''0123456789''"
    by auto
  from l have h: "a \<noteq> [] \<Longrightarrow> hd a \<noteq> CHR ''0''"
    by (cases a) simp_all
  note d = digit_inv [OF c]
  from v d(1) have dm: "n mod 10 = digit_value c" and dd: "n div 10 = decimal_value a"
    by auto
  show ?case
  proof (cases "a = []")
    case True
    with v have "n = digit_value c" by (simp add: decimal_value_def)
    with d True show ?thesis by (simp add: str_nat_small)
  next
    case False
    with a h dd have "spec_numeral (n div 10) a"
      by (simp add: spec_numeral_def)
    then have ih: "a = str_nat (n div 10)" by (rule snoc.IH)
    have "n div 10 \<noteq> 0"
    proof
      assume "n div 10 = 0"
      with ih str_nat_0 have "a = ''0''" by simp
      with h False show False by simp
    qed
    then have "\<not> n < 10" by simp
    then have "str_nat n = str_nat (n div 10) @ [''0123456789'' ! (n mod 10)]"
      by (rule str_nat_large)
    with ih dm d(2) show ?thesis by simp
  qed
qed

lemma spec_one_decimal_unique:
  "spec_one_decimal s n t \<Longrightarrow>
   t = (if s then ''-'' else '''') @ str_nat (n div 10) @ ''.'' @ str_nat (n mod 10)"
  unfolding spec_one_decimal_def
  using spec_numeral_unique by fastforce

lemma format_1f_finite:
  "format_1f (Finite s m e) =
     (if s then ''-'' else '''') @ str_nat (tenths m e div 10) @ ''.'' @
     str_nat (tenths m e mod 10)"
  by (simp add: Let_def)

lemma percent_text_unique:
  assumes "spec_percent_text x t"
  shows "t = format_1f (float_mul_100 x)"
proof (cases x)
  case (Finite s m e)
  from float_mul_100_rounds [of m e s] obtain m0 e0 where
    p0: "spec_product_100 m e m0 e0" and
    f: "float_mul_100 (Finite s m e) =
       (if float_overflows m0 e0 then Infinity s else Finite s m0 e0)"
    by blast
  from assms obtain m' e' where p: "spec_product_100 m e m' e'"
    and b: "if float_overflows m' e'
        then t = (if s then ''-inf'' else ''inf'')
        else (\<exists>n. spec_tenths m' e' n \<and> spec_one_decimal s n t)"
    unfolding Finite spec_percent_text_def by (simp only: pyfloat.case) blast
  from spec_product_100_unique [OF p p0] have eq: "m' = m0" "e' = e0" by simp_all
  show ?thesis
  proof (cases "float_overflows m0 e0")
    case True
    with b eq have "t = format_1f (Infinity s)" by simp
    with True show ?thesis
      unfolding Finite by (simp only: f if_True)
  next
    case False
    with b eq obtain n where "spec_tenths m0 e0 n" "spec_one_decimal s n t" by auto
    then have "t = format_1f (Finite s m0 e0)"
      using spec_tenths_unique [of m0 e0 n] spec_one_decimal_unique [of s n t]
      by (simp only: format_1f_finite)
    with False show ?thesis
      unfolding Finite by (simp only: f if_False)
  qed
next
  case (Infinity s)
  with assms show ?thesis by (simp add: spec_percent_text_def)
qed

lemma percent_text_iff: "spec_percent_text x t \<longleftrightarrow> t = format_1f (float_mul_100 x)"
  using percent_text_unique percent_text_of_score by blast

text \<open>The float 0.95 times 100 is the float 95, printed as "95.0".\<close>

lemma bit_length_0_95: "bit_length 855683929200394200 = 60"
  by (simp add: bit_length.simps)

lemma float_mul_100_0_95:
  "float_mul_100 float_0_95 = Finite False 6685030696878080 (- 46)"
  by (simp add: float_0_95_def bit_length_0_95 round_half_even_def float_overflows_def Let_def)

lemma format_95: "format_1f (Finite False 6685030696878080 (- 46)) = ''95.0''"
  by (simp add: tenths_def round_half_even_def str_nat.simps Let_def)

lemma format_0_95: "format_1f (float_mul_100 float_0_95) = ''95.0''"
  unfolding float_mul_100_0_95 by (rule format_95)

lemma result_lines_with_score:
  "score result = Some x \<Longrightarrow>
   result_lines to_str idx result =
     [''\<newline>--- Job Opening #'' @ str_nat idx @ '' ---''] @
     (''Relevance Score: '' @ format_1f (float_mul_100 x) @ ''%'') #
     ([''\<newline>'' @ content result] @
      metadata_lines to_str (metadata result) @
      source_lines to_str (source result) @
      [''''])"
  unfolding result_lines_def score_lines_def by simp

lemma result_lines_without_score:
  "score result = None \<Longrightarrow>
   result_lines to_str idx result =
     (''\<newline>--- Job Opening #'' @ str_nat idx @ '' ---'') #
     (''\<newline>'' @ content result) #
     (metadata_lines to_str (metadata result) @
      source_lines to_str (source result) @
      [''''])"
  unfolding result_lines_def score_lines_def by simp

lemma score_line_in_result_lines:
  "score result = Some x \<Longrightarrow>
   (''Relevance Score: '' @ format_1f (float_mul_100 x) @ ''%'')
     \<in> set (result_lines to_str idx result)"
  unfolding in_set_conv_decomp
  by (intro exI, erule result_lines_with_score)

lemma not_score_prefix:
  "l = [] \<or> hd l \<noteq> CHR ''R'' \<Longrightarrow> \<not> prefix ''Relevance Score: '' l"
  by (cases l) auto

lemma metadata_lines_hd:
  "l \<in> set (metadata_lines to_str md) \<Longrightarrow> l = [] \<or> hd l \<noteq> CHR ''R''"
  by (auto simp: metadata_lines_def split: if_splits)

lemma source_lines_hd:
  "l \<in> set (source_lines to_str src) \<Longrightarrow> l = [] \<or> hd l \<noteq> CHR ''R''"
  by (auto simp: source_lines_def split: option.splits if_splits)

lemma no_score_no_score_line:
  assumes "score result = None" "l \<in> set (result_lines to_str idx result)"
  shows "\<not> prefix ''Relevance Score: '' l"
proof -
  from assms have "l = ''\<newline>--- Job Opening #'' @ str_nat idx @ '' ---''
      \<or> l = ''\<newline>'' @ content result
      \<or> l \<in> set (metadata_lines to_str (metadata result))
      \<or> l \<in> set (source_lines to_str (source result))
      \<or> l = []"
    unfolding result_lines_without_score [OF assms(1)] by auto
  then have "l = [] \<or> hd l \<noteq> CHR ''R''"
    using metadata_lines_hd source_lines_hd by fastforce
  then show ?thesis by (rule not_score_prefix)
qed

lemma sublist_str_join: "l \<in> set ls \<Longrightarrow> sublist l (str_join sep ls)"
proof (induction sep ls rule: str_join.induct)
  case (1 sep)
  then show ?case by simp
next
  case (2 sep x)
  then show ?case by simp
next
  case (3 sep x y ys)
  show ?case
  proof (cases "l = x")
    case True
    then show ?thesis by simp
  next
    case False
    with 3 have "sublist l (str_join sep (y # ys))" by simp
    then have "sublist l ((x @ sep) @ str_join sep (y # ys))"
      by (rule sublist_order.order.trans) (rule sublist_append_leftI)
    then show ?thesis by simp
  qed
qed

lemma block_in_response:
  assumes "result \<in> set rs"
  shows "\<exists>idx. (idx, result) \<in> set (enumerate n rs)"
proof -
  from assms obtain i where i: "i < length rs" "rs ! i = result"
    by (auto simp: in_set_conv_nth)
  then have "(n + i, result) \<in> set (enumerate n rs)"
    by (simp add: in_set_enumerate_eq)
  then show ?thesis ..
qed

lemma line_in_response:
  assumes "(idx, result) \<in> set irs" "l \<in> set (result_lines to_str idx result)"
  shows "l \<in> set (concat (map (\<lambda>(idx, result). result_lines to_str idx result) irs))"
  using assms by (induction irs) auto

lemma format_nonzero:
  "total_results response \<noteq> 0 \<Longrightarrow>
   format_job_openings_response to_str response =
     str_join ''\<newline>''
       ((''Found '' @ str_int (total_results response) @ '' job opening(s):\<newline>'') #
        concat (map (\<lambda>(idx, result). result_lines to_str idx result)
                  (enumerate 1 (results response))))"
  unfolding format_job_openings_response_def by simp

text \<open>
  C7. With a score \<open>x\<close>, the lines of a block are those of the same result without score
  plus exactly one line, in second place: "Relevance Score: ", a text \<open>t\<close> and "%", where
  \<open>t\<close> is the one text that writes \<open>x \<sqdot> 100\<close> (the float product, rounded to 53 bits) with
  one decimal place (rounded to the nearest tenth, ties to even; a canonical decimal
  numeral, a point, one digit; "inf" when the product overflows). The text \<open>t\<close> and "%"
  are then part of the formatted response of every non-empty response holding the
  result. Without a score, the formatter emits no line that starts with
  "Relevance Score: ". For the float 0.95 the text is "95.0".
\<close>

theorem score_rendered_as_percentage:
  "(score result = Some x \<longrightarrow>
      (\<exists>t. spec_percent_text x t
         \<and> (\<forall>t'. spec_percent_text x t' \<longrightarrow> t' = t)
         \<and> result_lines to_str idx result =
             hd (result_lines to_str idx (result\<lparr>score := None\<rparr>)) #
             (''Relevance Score: '' @ t @ ''%'') #
             tl (result_lines to_str idx (result\<lparr>score := None\<rparr>))
         \<and> (result \<in> set (results response) \<and> total_results response \<noteq> 0 \<longrightarrow>
              sublist (t @ ''%'') (format_job_openings_response to_str response))))
   \<and> (score result = None \<longrightarrow>
        (\<forall>l \<in> set (result_lines to_str idx result). \<not> prefix ''Relevance Score: '' l))
   \<and> spec_percent_text float_0_95 ''95.0''"
proof (intro conjI impI)
  assume s: "score result = Some x"
  let ?t = "format_1f (float_mul_100 x)"
  have n: "score (result\<lparr>score := None\<rparr>) = None" by simp
  have spec: "spec_percent_text x ?t"
    by (rule percent_text_of_score)
  have uniq: "\<forall>t'. spec_percent_text x t' \<longrightarrow> t' = ?t"
    using percent_text_unique by blast
  have lines: "result_lines to_str idx result =
        hd (result_lines to_str idx (result\<lparr>score := None\<rparr>)) #
        (''Relevance Score: '' @ ?t @ ''%'') #
        tl (result_lines to_str idx (result\<lparr>score := None\<rparr>))"
    unfolding result_lines_with_score [OF s] result_lines_without_score [OF n] by simp
  have part: "sublist (?t @ ''%'') (format_job_openings_response to_str response)"
    if r: "result \<in> set (results response) \<and> total_results response \<noteq> 0"
  proof -
    let ?line = "''Relevance Score: '' @ ?t @ ''%''"
    let ?blocks = "concat (map (\<lambda>(idx, result). result_lines to_str idx result)
                          (enumerate 1 (results response)))"
    let ?head = "''Found '' @ str_int (total_results response) @ '' job opening(s):\<newline>''"
    from r have "result \<in> set (results response)" ..
    from block_in_response [OF this, of 1]
    obtain i where i: "(i, result) \<in> set (enumerate 1 (results response))" ..
    have "?line \<in> set (result_lines to_str i result)"
      using s by (rule score_line_in_result_lines)
    with i have "?line \<in> set ?blocks"
      by (rule line_in_response)
    then have "?line \<in> set (?head # ?blocks)"
      by (rule list.set_intros(2))
    then have "sublist ?line (str_join ''\<newline>'' (?head # ?blocks))"
      by (rule sublist_str_join)
    moreover have "sublist (?t @ ''%'') ?line"
      by (rule sublist_append_leftI)
    ultimately have sub: "sublist (?t @ ''%'') (str_join ''\<newline>'' (?head # ?blocks))"
      by (rule sublist_order.order.trans [rotated])
    from r have "total_results response \<noteq> 0" ..
    then have eq: "format_job_openings_response to_str response =
        str_join ''\<newline>'' (?head # ?blocks)"
      by (rule format_nonzero)
    show ?thesis
      unfolding eq by (rule sub)
  qed
  show "\<exists>t. spec_percent_text x t
         \<and> (\<forall>t'. spec_percent_text x t' \<longrightarrow> t' = t)
         \<and> result_lines to_str idx result =
             hd (result_lines to_str idx (result\<lparr>score := None\<rparr>)) #
             (''Relevance Score: '' @ t @ ''%'') #
             tl (result_lines to_str idx (result\<lparr>score := None\<rparr>))
         \<and> (result \<in> set (results response) \<and> total_results response \<noteq> 0 \<longrightarrow>
              sublist (t @ ''%'') (format_job_openings_response to_str response))"
    using spec uniq lines part by (intro exI [of _ ?t]) blast
next
  assume "score result = None"
  then show "\<forall>l \<in> set (result_lines to_str idx result). \<not> prefix ''Relevance Score: '' l"
    using no_score_no_score_line by blast
next
  have "spec_percent_text float_0_95 (format_1f (float_mul_100 float_0_95))"
    by (rule percent_text_of_score)
  then show "spec_percent_text float_0_95 ''95.0''"
    unfolding format_0_95 .
qed

text \<open>
  The sample response of the server's tests, formatted in full; the witness of C7 reads
  its "95.0%" from the theorem.
\<close>

lemma bit_length_0_87: "bit_length 783626335162466300 = 60"
  by (simp add: bit_length.simps)

lemma float_mul_100_0_87:
  "float_mul_100 float_0_87 = Finite False 6122080743456768 (- 46)"
  by (simp add: float_0_87_def bit_length_0_87 round_half_even_def float_overflows_def Let_def)

lemma format_87: "format_1f (Finite False 6122080743456768 (- 46)) = ''87.0''"
  by (simp add: tenths_def round_half_even_def str_nat.simps Let_def)

lemma format_0_87: "format_1f (float_mul_100 float_0_87) = ''87.0''"
  unfolding float_mul_100_0_87 by (rule format_87)

lemma str_nat_1: "str_nat 1 = ''1''" and str_nat_2: "str_nat 2 = ''2''"
  by (simp_all add: str_nat.simps)

lemma str_nat_Suc_0: "str_nat (Suc 0) = ''1''"
  using str_nat_1 by simp

lemma str_nat_Suc_Suc_0: "str_nat (Suc (Suc 0)) = ''2''"
  using str_nat_2 by (simp add: numeral_2_eq_2)

lemma str_int_2: "str_int 2 = ''2''"
  by (simp add: str_int_def str_nat_2)

lemma format_sample:
  "format_job_openings_response (\<lambda>v. v) response_sample =
     ''Found 2 job opening(s):\<newline>\<newline>\<newline>--- Job Opening #1 ---\<newline>Relevance Score: 95.0%\<newline>\<newline>Software Engineer - Remote position\<newline>\<newline>Metadata:\<newline>  - job_id: 12345\<newline>\<newline>\<newline>--- Job Opening #2 ---\<newline>Relevance Score: 87.0%\<newline>\<newline>Senior Data Scientist role\<newline>\<newline>Metadata:\<newline>  - job_id: 67890\<newline>''"
  by (simp add: format_job_openings_response_def response_sample_def result_se_def
      result_ds_def result_lines_def score_lines_def metadata_lines_def source_lines_def
      format_0_95 format_0_87 str_int_2 str_nat_1 str_nat_2 str_nat_Suc_0 str_nat_Suc_Suc_0)

theorem score_rendered_as_percentage_witness:
  "score result_se = Some float_0_95
   \<and> spec_percent_text float_0_95 ''95.0''
   \<and> result_se \<in> set (results response_sample) \<and> total_results response_sample \<noteq> 0
   \<and> sublist ''95.0%'' (format_job_openings_response (\<lambda>v. v) response_sample)
   \<and> score result1 = None
   \<and> \<not> (\<exists>l \<in> set (result_lines (\<lambda>v. v) 1 result1). prefix ''Relevance Score: '' l)"
proof -
  have h1: "score result_se = Some float_0_95"
    by (simp add: result_se_def)
  have h2: "result_se \<in> set (results response_sample) \<and> total_results response_sample \<noteq> 0"
    by (simp add: response_sample_def)
  have h3: "score result1 = None"
    by (simp add: result1_def)
  note t = score_rendered_as_percentage
    [of result_se float_0_95 "\<lambda>v. v" 1 response_sample]
  from t have b: "spec_percent_text float_0_95 ''95.0''"
    by blast
  from t h1 h2 obtain t' where u: "\<forall>t''. spec_percent_text float_0_95 t'' \<longrightarrow> t'' = t'"
    and a: "sublist (t' @ ''%'') (format_job_openings_response (\<lambda>v. v) response_sample)"
    by blast
  from u b have "t' = ''95.0''" by blast
  with a have c: "sublist ''95.0%'' (format_job_openings_response (\<lambda>v. v) response_sample)"
    by simp
  from score_rendered_as_percentage [of result1 float_0_95 "\<lambda>v. v" 1 response_sample] h3
  have d: "\<forall>l \<in> set (result_lines (\<lambda>v. v) 1 result1). \<not> prefix ''Relevance Score: '' l"
    by blast
  show ?thesis
    using h1 h2 h3 b c d by blast
qed

end
